theory Spec2Isabelle
  imports Complex_Main "HOL-Library.AList" "HOL-Library.Sublist"
begin

section \<open>String operations of the JavaScript runtime\<close>

text \<open>
  \<^verbatim>\<open>s.replace(/[...]/g, r)\<close>: every character of the class is replaced by \<open>r\<close>.
  The source uses it with the class \<^verbatim>\<open>[\^\~]\<close> and the replacement \<^verbatim>\<open>''\<close>.
\<close>

definition replace_class_global :: "char list \<Rightarrow> string \<Rightarrow> string \<Rightarrow> string" where
  "replace_class_global cls r s = concat (map (\<lambda>c. if c \<in> set cls then r else [c]) s)"

text \<open>
  \<^verbatim>\<open>s.replace(pat, r)\<close> with a string pattern: only the first occurrence of
  \<open>pat\<close> is replaced. (The replacements of the source, \<^verbatim>\<open>''\<close> and \<^verbatim>\<open>'-'\<close>, hold no
  \<^verbatim>\<open>$\<close> pattern.)
\<close>

fun replace_first :: "string \<Rightarrow> string \<Rightarrow> string \<Rightarrow> string" where
  "replace_first pat r [] = (if pat = [] then r else [])"
| "replace_first pat r (c # cs) =
     (if prefix pat (c # cs) then r @ drop (length pat) (c # cs)
      else c # replace_first pat r cs)"

text \<open>\<^verbatim>\<open>s.split(sep)\<close> for a one-character separator.\<close>

fun split_on :: "char \<Rightarrow> string \<Rightarrow> string list" where
  "split_on sep [] = [[]]"
| "split_on sep (c # cs) =
     (if c = sep then [] # split_on sep cs
      else (case split_on sep cs of [] \<Rightarrow> [[c]] | x # xs \<Rightarrow> (c # x) # xs))"

text \<open>Reading position \<open>i\<close> of a destructured array: \<^verbatim>\<open>undefined\<close> past the end.\<close>

definition nth_opt :: "'a list \<Rightarrow> nat \<Rightarrow> 'a option" where
  "nth_opt xs i = (if i < length xs then Some (xs ! i) else None)"

section \<open>JSON values and property access\<close>

text \<open>
  The value \<^verbatim>\<open>JSON.parse\<close> returns. An object is an association list read as a
  mapping (\<open>map_of\<close>). A number is the double that was read: a rational, the negative
  zero of \<^verbatim>\<open>-0\<close>, or an infinity, which is what a numeral beyond the range of
  doubles such as \<^verbatim>\<open>1e400\<close> is read as. A string is text that the file, in UTF-8,
  can hold.
\<close>

datatype jsnumber = Finite rat | NegativeZero | PositiveInfinity | NegativeInfinity

datatype json =
    JNull
  | JBool bool
  | JNum jsnumber
  | JStr string
  | JArr "json list"
  | JObj "(string \<times> json) list"

text \<open>
  What a property read on a parsed value can give: \<^verbatim>\<open>undefined\<close>, data of the
  document, or (\<open>Builtin\<close>) a function, prototype object or number that the runtime
  provides (an inherited member such as \<^verbatim>\<open>constructor\<close>, or \<^verbatim>\<open>length\<close>). No built-in
  member is a string.
\<close>

datatype jsval = Undefined | Builtin | Val json

datatype assertion =
    UsernameRequired            \<comment> \<open>\<^verbatim>\<open>GITHUB_USERNAME required\<close>\<close>
  | PasswordRequired            \<comment> \<open>\<^verbatim>\<open>GITHUB_PASSWORD required\<close>\<close>
  | UncommittedChanges string   \<comment> \<open>\<^verbatim>\<open>The repo (${inputPath}) has uncommitted changes.\<close>\<close>
  | MustEqual jsval string      \<comment> \<open>\<^verbatim>\<open>${currentVersion} must equal ${beforeVersion}\<close>\<close>

datatype error =
    AssertionFailed assertion   \<comment> \<open>thrown by \<^verbatim>\<open>Hoek.assert\<close>\<close>
  | TypeError                   \<comment> \<open>thrown by the runtime\<close>
  | SyntaxError                 \<comment> \<open>thrown by \<^verbatim>\<open>JSON.parse\<close>\<close>
  | Thrown string               \<comment> \<open>thrown by nodegit, fs or Octokit, with its text\<close>
  | OutsideModel                \<comment> \<open>an assignment this model does not describe\<close>

text \<open>
  The member names of \<^verbatim>\<open>Object.prototype\<close>, which every object, array, string,
  number and boolean inherits: those of ECMAScript with Annex B, the same in every
  edition that has async functions.
\<close>

definition object_prototype :: "string list" where
  "object_prototype =
     [''constructor'', ''hasOwnProperty'', ''isPrototypeOf'', ''propertyIsEnumerable'',
      ''toLocaleString'', ''toString'', ''valueOf'', ''__proto__'', ''__defineGetter__'',
      ''__defineSetter__'', ''__lookupGetter__'', ''__lookupSetter__'']"

text \<open>
  The member names of \<^verbatim>\<open>Array.prototype\<close>, \<^verbatim>\<open>String.prototype\<close>,
  \<^verbatim>\<open>Number.prototype\<close> and \<^verbatim>\<open>Boolean.prototype\<close> differ from one runtime to the
  next (later editions add \<^verbatim>\<open>flat\<close>, \<^verbatim>\<open>at\<close>, \<^verbatim>\<open>trimStart\<close> and others), so the
  script takes them from the runtime it runs on.
\<close>

record js_runtime =
  array_prototype :: "string list"
  string_prototype :: "string list"
  number_prototype :: "string list"
  boolean_prototype :: "string list"

text \<open>The members of ECMAScript 2017 with Annex B, for the examples.\<close>

definition es2017 :: js_runtime where
  "es2017 =
     \<lparr>array_prototype =
        [''concat'', ''copyWithin'', ''entries'', ''every'', ''fill'', ''filter'',
         ''find'', ''findIndex'', ''forEach'', ''includes'', ''indexOf'', ''join'', ''keys'',
         ''lastIndexOf'', ''map'', ''pop'', ''push'', ''reduce'', ''reduceRight'', ''reverse'',
         ''shift'', ''slice'', ''some'', ''sort'', ''splice'', ''unshift'', ''values''],
      string_prototype =
        [''anchor'', ''big'', ''blink'', ''bold'', ''charAt'', ''charCodeAt'',
         ''codePointAt'', ''concat'', ''endsWith'', ''fixed'', ''fontcolor'', ''fontsize'',
         ''includes'', ''indexOf'', ''italics'', ''lastIndexOf'', ''link'', ''localeCompare'',
         ''match'', ''normalize'', ''padEnd'', ''padStart'', ''repeat'', ''replace'', ''search'',
         ''slice'', ''small'', ''split'', ''startsWith'', ''strike'', ''sub'', ''substr'',
         ''substring'', ''sup'', ''toLocaleLowerCase'', ''toLocaleUpperCase'', ''toLowerCase'',
         ''toUpperCase'', ''trim'', ''trimLeft'', ''trimRight''],
      number_prototype = [''toExponential'', ''toFixed'', ''toPrecision''],
      boolean_prototype = []\<rparr>"

text \<open>
  A property name that is an array index: a decimal numeral without leading zero,
  read as the number it denotes.
\<close>

definition is_digit :: "char \<Rightarrow> bool" where
  "is_digit c = (c \<in> set ''0123456789'')"

definition decimal_value :: "string \<Rightarrow> nat" where
  "decimal_value k = foldl (\<lambda>n c. 10 * n + (of_char c - 48)) 0 k"

definition array_index :: "string \<Rightarrow> nat option" where
  "array_index k =
     (if k \<noteq> [] \<and> list_all is_digit k \<and> (k = ''0'' \<or> hd k \<noteq> CHR ''0'')
      then Some (decimal_value k)
      else None)"

definition builtin_or_undefined :: "string list \<Rightarrow> string \<Rightarrow> jsval" where
  "builtin_or_undefined proto k = (if k \<in> set proto then Builtin else Undefined)"

text \<open>
  \<^verbatim>\<open>o[k]\<close>, where \<open>o\<close> is \<^verbatim>\<open>undefined\<close> (\<open>None\<close>) or a parsed value. Reading a
  property of \<^verbatim>\<open>undefined\<close> or \<^verbatim>\<open>null\<close> throws a TypeError. An array and a string
  have \<^verbatim>\<open>length\<close> as a property of their own.
\<close>

fun js_get :: "js_runtime \<Rightarrow> json option \<Rightarrow> string \<Rightarrow> error + jsval" where
  "js_get rt None k = Inl TypeError"
| "js_get rt (Some JNull) k = Inl TypeError"
| "js_get rt (Some (JObj fs)) k =
     Inr (case map_of fs k of
            Some v \<Rightarrow> Val v
          | None \<Rightarrow> builtin_or_undefined object_prototype k)"
| "js_get rt (Some (JArr xs)) k =
     Inr (case array_index k of
            Some i \<Rightarrow> if i < length xs then Val (xs ! i) else Undefined
          | None \<Rightarrow>
              builtin_or_undefined (''length'' # array_prototype rt @ object_prototype) k)"
| "js_get rt (Some (JStr s)) k =
     Inr (case array_index k of
            Some i \<Rightarrow> if i < length s then Val (JStr [s ! i]) else Undefined
          | None \<Rightarrow>
              builtin_or_undefined (''length'' # string_prototype rt @ object_prototype) k)"
| "js_get rt (Some (JNum n)) k =
     Inr (builtin_or_undefined (number_prototype rt @ object_prototype) k)"
| "js_get rt (Some (JBool b)) k =
     Inr (builtin_or_undefined (boolean_prototype rt @ object_prototype) k)"

text \<open>
  \<^verbatim>\<open>pkg.dependencies\<close>: the own property of an object; \<^verbatim>\<open>undefined\<close> on any other
  value but \<^verbatim>\<open>null\<close>, since no built-in prototype has a member of that name.
\<close>

fun pkg_dependencies :: "json \<Rightarrow> error + json option" where
  "pkg_dependencies JNull = Inl TypeError"
| "pkg_dependencies (JObj fs) = Inr (map_of fs ''dependencies'')"
| "pkg_dependencies v = Inr None"

text \<open>
  \<^verbatim>\<open>o[k] = v\<close> in strict mode, giving the value of \<open>o\<close> afterwards as
  \<^verbatim>\<open>JSON.stringify\<close> sees it.
  \<^item> On an object an own property is overwritten, a new one is added; only the name
    \<^verbatim>\<open>__proto__\<close>, when not an own property, reaches the inherited setter, which ignores
    a string.
  \<^item> On an array an element below the length is overwritten.
  \<^item> On a string the assignment to a character throws a TypeError.
  \<^item> Every other assignment (past the end of an array, to \<^verbatim>\<open>length\<close>, to a member of a
    number or boolean) is left out of the model: \<open>OutsideModel\<close>. Lemma
    \<open>js_set_modelled\<close> shows that no assignment to a property that reads as data of
    the document is among them, and lemmas \<open>bump_modelled\<close> and
    \<open>bump_draft_modelled\<close> that the scripts never make one.
\<close>

fun js_set :: "json \<Rightarrow> string \<Rightarrow> json \<Rightarrow> error + json" where
  "js_set JNull k v = Inl TypeError"
| "js_set (JObj fs) k v =
     (if map_of fs k = None \<and> k = ''__proto__'' then Inr (JObj fs)
      else Inr (JObj (AList.update k v fs)))"
| "js_set (JArr xs) k v =
     (case array_index k of
        Some i \<Rightarrow> if i < length xs then Inr (JArr (xs[i := v])) else Inl OutsideModel
      | None \<Rightarrow> Inl OutsideModel)"
| "js_set (JStr s) k v =
     (case array_index k of
        Some i \<Rightarrow> if i < length s then Inl TypeError else Inl OutsideModel
      | None \<Rightarrow> Inl OutsideModel)"
| "js_set (JNum n) k v = Inl OutsideModel"
| "js_set (JBool b) k v = Inl OutsideModel"

text \<open>
  \<^verbatim>\<open>pkg.dependencies[packageName] = afterVersion\<close>: the object that
  \<^verbatim>\<open>pkg.dependencies\<close> refers to is changed in place, so \<open>pkg\<close> holds the changed
  object under the same key.
\<close>

definition assign_dependency :: "json \<Rightarrow> string \<Rightarrow> string \<Rightarrow> error + json" where
  "assign_dependency pkg packageName afterVersion =
     (case pkg_dependencies pkg of
        Inl e \<Rightarrow> Inl e
      | Inr None \<Rightarrow> Inl TypeError
      | Inr (Some deps) \<Rightarrow>
          (case js_set deps packageName (JStr afterVersion) of
             Inl e \<Rightarrow> Inl e
           | Inr deps' \<Rightarrow>
               (case pkg of
                  JObj fs \<Rightarrow> Inr (JObj (AList.update ''dependencies'' deps' fs))
                | _ \<Rightarrow> Inr pkg)))"

text \<open>
  What \<^verbatim>\<open>JSON.parse\<close> reads back from the text that \<^verbatim>\<open>JSON.stringify\<close> writes for a
  parsed value: an infinity is written as \<^verbatim>\<open>null\<close> and the negative zero as
  \<^verbatim>\<open>0\<close>; everything else is written as it is.
\<close>

fun written :: "json \<Rightarrow> json" where
  "written (JNum PositiveInfinity) = JNull"
| "written (JNum NegativeInfinity) = JNull"
| "written (JNum NegativeZero) = JNum (Finite 0)"
| "written (JArr xs) = JArr (map written xs)"
| "written (JObj fs) = JObj (map (\<lambda>(k, v). (k, written v)) fs)"
| "written v = v"

fun written_val :: "jsval \<Rightarrow> jsval" where
  "written_val (Val v) = Val (written v)"
| "written_val v = v"

text \<open>A value without infinity and without negative zero.\<close>

fun exact :: "json \<Rightarrow> bool" where
  "exact (JNum n) = (case n of Finite q \<Rightarrow> True | _ \<Rightarrow> False)"
| "exact (JArr xs) = list_all exact xs"
| "exact (JObj fs) = list_all (\<lambda>(k, v). exact v) fs"
| "exact v = True"

text \<open>\<^verbatim>\<open>o.k\<close> as data of the document: the field \<open>k\<close> of an object.\<close>

fun field_of :: "json \<Rightarrow> string \<Rightarrow> json option" where
  "field_of (JObj fs) k = map_of fs k"
| "field_of v k = None"

fun keys_of :: "json \<Rightarrow> string list" where
  "keys_of (JObj fs) = map fst fs"
| "keys_of v = []"

section \<open>The world outside the program\<close>

text \<open>
  Every call into nodegit, fs or Octokit, with the arguments that matter. The run
  records them in order; a call that throws is recorded too, as the last one.
\<close>

datatype call =
    RepositoryOpen string
  | GetStatus
  | CheckoutBranch string
  | GetRemote string
  | FetchAll
  | MergeBranches string string
  | RemotePush "string list"
  | GetHeadCommit
  | CreateBranch string string bool
      \<comment> \<open>name, commit, force\<close>
  | DefaultSignature
  | RefreshIndex
  | IndexAddByPath string
  | IndexWrite
  | IndexWriteTree
  | CreateCommit string string string string string "string list"
      \<comment> \<open>ref to update, author, committer, message, tree, parents\<close>
  | ReadFileSync string
  | WriteFileSync string json nat string
      \<comment> \<open>path, and the text \<^verbatim>\<open>JSON.stringify(value, null, indent) + suffix\<close>\<close>
  | OctokitNew string
      \<comment> \<open>baseUrl\<close>
  | OctokitAuthenticate string string
      \<comment> \<open>basic authentication: username, password\<close>
  | PullRequestsCreate "string option" "string option" string string string
      \<comment> \<open>owner, repo, head, base, title\<close>

text \<open>The result of \<^verbatim>\<open>Url.parse\<close> on the remote's URL; an absent part is \<^verbatim>\<open>null\<close>.\<close>

record parsed_url =
  hostname :: "string option"
  pathname :: "string option"

record repo_info =
  host :: "string option"
  owner :: "string option"
  name :: "string option"

text \<open>
  What the run cannot decide: the process environment, and what the collaborators
  answer. Whether a call throws may depend on every call made before it.
\<close>

record env =
  GITHUB_USERNAME :: "string option"
  GITHUB_PASSWORD :: "string option"
  runtime :: js_runtime
  path_resolve :: "string \<Rightarrow> string \<Rightarrow> string"
  fails :: "call list \<Rightarrow> call \<Rightarrow> string option"
  statuses :: "string list"
  origin_url :: parsed_url
  head_commit :: string
  signature :: string
  tree_oid :: string
  package_json :: "json option"
      \<comment> \<open>the parsed text of the manifest when it is read; \<open>None\<close> when it is not JSON\<close>
  pr_url :: string

record world =
  calls :: "call list"
  stdout :: "string list"

section \<open>Sequencing with exceptions\<close>

type_synonym 'a io = "world \<Rightarrow> (error + 'a) \<times> world"

definition ret :: "'a \<Rightarrow> 'a io" where
  "ret x = (\<lambda>w. (Inr x, w))"

definition throw :: "error \<Rightarrow> 'a io" where
  "throw e = (\<lambda>w. (Inl e, w))"

definition seq :: "'a io \<Rightarrow> ('a \<Rightarrow> 'b io) \<Rightarrow> 'b io" where
  "seq m f = (\<lambda>w. case m w of (Inl e, w') \<Rightarrow> (Inl e, w') | (Inr x, w') \<Rightarrow> f x w')"

definition lift :: "error + 'a \<Rightarrow> 'a io" where
  "lift r = (case r of Inl e \<Rightarrow> throw e | Inr x \<Rightarrow> ret x)"

definition call :: "env \<Rightarrow> call \<Rightarrow> unit io" where
  "call env c =
     (\<lambda>w. (case fails env (calls w) c of Some e \<Rightarrow> Inl (Thrown e) | None \<Rightarrow> Inr (),
           w\<lparr>calls := calls w @ [c]\<rparr>))"

definition console_log :: "string \<Rightarrow> unit io" where
  "console_log s = (\<lambda>w. (Inr (), w\<lparr>stdout := stdout w @ [s]\<rparr>))"

text \<open>\<^verbatim>\<open>Hoek.assert(condition, message)\<close> throws when the condition does not hold.\<close>

definition hoek_assert :: "bool \<Rightarrow> assertion \<Rightarrow> unit io" where
  "hoek_assert condition message = (if condition then ret () else throw (AssertionFailed message))"

text \<open>Truthiness of an environment variable: absent and empty are both falsy.\<close>

definition truthy :: "string option \<Rightarrow> bool" where
  "truthy v = (case v of None \<Rightarrow> False | Some s \<Rightarrow> s \<noteq> [])"

text \<open>A string, \<^verbatim>\<open>null\<close> or \<^verbatim>\<open>undefined\<close> inside a template literal.\<close>

definition template :: "string \<Rightarrow> string option \<Rightarrow> string" where
  "template absent v = (case v of None \<Rightarrow> absent | Some s \<Rightarrow> s)"

section \<open>The functions of \<^verbatim>\<open>bin/bump.js\<close>\<close>

definition repoHasUncommittedChanges :: "env \<Rightarrow> string \<Rightarrow> bool io" where
  "repoHasUncommittedChanges env inputPath =
     seq (call env (RepositoryOpen inputPath)) (\<lambda>_.
     seq (call env GetStatus) (\<lambda>_.
     ret (length (statuses env) > 0)))"

definition checkoutBranch :: "env \<Rightarrow> string \<Rightarrow> string \<Rightarrow> unit io" where
  "checkoutBranch env inputPath branch =
     seq (call env (RepositoryOpen inputPath)) (\<lambda>_.
     call env (CheckoutBranch branch))"

definition lookupRemote :: "env \<Rightarrow> string \<Rightarrow> string \<Rightarrow> unit io" where
  "lookupRemote env inputPath remoteName =
     seq (call env (RepositoryOpen inputPath)) (\<lambda>_.
     call env (GetRemote remoteName))"

text \<open>
  The part of \<^verbatim>\<open>getRepoInfo\<close> after \<^verbatim>\<open>Url.parse\<close>: \<^verbatim>\<open>slice\<close> on a \<^verbatim>\<open>null\<close>
  pathname throws; a missing second part of the path is \<^verbatim>\<open>undefined\<close>.
\<close>

definition repo_info_of :: "parsed_url \<Rightarrow> error + repo_info" where
  "repo_info_of parsed =
     (case pathname parsed of
        None \<Rightarrow> Inl TypeError
      | Some p \<Rightarrow>
          let parts = split_on CHR ''/'' (replace_first ''.git'' '''' (drop 1 p)) in
          Inr \<lparr>host = hostname parsed, owner = nth_opt parts 0, name = nth_opt parts 1\<rparr>)"

definition getRepoInfo :: "env \<Rightarrow> string \<Rightarrow> repo_info io" where
  "getRepoInfo env inputPath =
     seq (lookupRemote env inputPath ''origin'') (\<lambda>_.
     lift (repo_info_of (origin_url env)))"

definition pull :: "env \<Rightarrow> string \<Rightarrow> unit io" where
  "pull env inputPath =
     seq (call env (RepositoryOpen inputPath)) (\<lambda>_.
     seq (call env FetchAll) (\<lambda>_.
     call env (MergeBranches ''master'' ''origin/master'')))"

definition push :: "env \<Rightarrow> string \<Rightarrow> string \<Rightarrow> unit io" where
  "push env inputPath branch =
     seq (lookupRemote env inputPath ''origin'') (\<lambda>_.
     call env (RemotePush [''refs/heads/'' @ branch @ '':refs/heads/'' @ branch]))"

definition createBranch :: "env \<Rightarrow> string \<Rightarrow> string \<Rightarrow> unit io" where
  "createBranch env inputPath branch =
     seq (call env (RepositoryOpen inputPath)) (\<lambda>_.
     seq (call env GetHeadCommit) (\<lambda>_.
     call env (CreateBranch branch (head_commit env) False)))"

fun addByPaths :: "env \<Rightarrow> string list \<Rightarrow> unit io" where
  "addByPaths env [] = ret ()"
| "addByPaths env (path # paths) =
     seq (call env (IndexAddByPath path)) (\<lambda>_. addByPaths env paths)"

definition commitPaths :: "env \<Rightarrow> string \<Rightarrow> string list \<Rightarrow> string \<Rightarrow> unit io" where
  "commitPaths env inputPath paths message =
     seq (call env (RepositoryOpen inputPath)) (\<lambda>_.
     seq (call env DefaultSignature) (\<lambda>_.
     seq (call env RefreshIndex) (\<lambda>_.
     seq (addByPaths env paths) (\<lambda>_.
     seq (call env IndexWrite) (\<lambda>_.
     seq (call env IndexWriteTree) (\<lambda>_.
     seq (call env GetHeadCommit) (\<lambda>_.
     call env (CreateCommit ''HEAD'' (signature env) (signature env) message
                 (tree_oid env) [head_commit env]))))))))"

definition getBaseUrl :: "string \<Rightarrow> string" where
  "getBaseUrl hostName =
     (if hostName = ''github.com'' then ''https://api.github.com''
      else ''https://'' @ hostName @ ''/api/v3'')"

text \<open>
  A \<^verbatim>\<open>null\<close> host is no string, so it takes the second branch of \<open>getBaseUrl\<close> and
  is spliced in as the text \<^verbatim>\<open>null\<close>. The credentials are read after the two
  assertions of \<open>bump\<close>, where both are present.
\<close>

definition createPR :: "env \<Rightarrow> repo_info \<Rightarrow> string \<Rightarrow> string \<Rightarrow> string io" where
  "createPR env repoInfo branch message =
     seq (call env (OctokitNew (getBaseUrl (template ''null'' (host repoInfo))))) (\<lambda>_.
     seq (call env (OctokitAuthenticate (template ''undefined'' (GITHUB_USERNAME env))
                      (template ''undefined'' (GITHUB_PASSWORD env)))) (\<lambda>_.
     seq (call env (PullRequestsCreate (owner repoInfo) (name repoInfo) branch ''master''
                      (''[Technical] '' @ message))) (\<lambda>_.
     ret (pr_url env))))"

definition safeVersion :: "string \<Rightarrow> string" where
  "safeVersion afterVersion = replace_class_global ''^~'' '''' afterVersion"

definition safePackageName :: "string \<Rightarrow> string" where
  "safePackageName packageName = replace_first ''/'' ''-'' (replace_first ''@'' '''' packageName)"

definition branchName :: "string \<Rightarrow> string \<Rightarrow> string" where
  "branchName packageName afterVersion =
     ''bump-'' @ safePackageName packageName @ ''-v'' @ safeVersion afterVersion"

definition commitMessage :: "string \<Rightarrow> string \<Rightarrow> string" where
  "commitMessage packageName afterVersion =
     ''Bump '' @ safePackageName packageName @ '' to v'' @ safeVersion afterVersion"

text \<open>
  Writing a value into a template literal converts it to a string. That throws a
  TypeError for an object with an own property \<^verbatim>\<open>toString\<close> (what \<^verbatim>\<open>JSON.parse\<close>
  stores there is no function, and the inherited \<^verbatim>\<open>valueOf\<close> gives back the object),
  and for an array with such an element, which \<^verbatim>\<open>join\<close> converts in turn. Every other
  value converts: \<^verbatim>\<open>null\<close>, booleans, numbers, strings, \<^verbatim>\<open>undefined\<close> and the
  built-in members.
\<close>

fun template_throws :: "json \<Rightarrow> bool" where
  "template_throws (JObj fs) = (map_of fs ''toString'' \<noteq> None)"
| "template_throws (JArr xs) = list_ex template_throws xs"
| "template_throws v = False"

fun unprintable :: "jsval \<Rightarrow> bool" where
  "unprintable (Val v) = template_throws v"
| "unprintable v = False"

text \<open>
  The message \<^verbatim>\<open>`${currentVersion} must equal ${beforeVersion}`\<close>, built before
  \<^verbatim>\<open>Hoek.assert\<close> is called.
\<close>

definition must_equal_message :: "jsval \<Rightarrow> string \<Rightarrow> error + assertion" where
  "must_equal_message currentVersion beforeVersion =
     (if unprintable currentVersion then Inl TypeError
      else Inr (MustEqual currentVersion beforeVersion))"

definition json_parse :: "json option \<Rightarrow> error + json" where
  "json_parse text = (case text of None \<Rightarrow> Inl SyntaxError | Some v \<Rightarrow> Inr v)"

text \<open>
  \<^verbatim>\<open>exports.bump\<close>. The comparison \<^verbatim>\<open>currentVersion === beforeVersion\<close> with a
  string on the right holds exactly when the left is that string. The function has
  no \<^verbatim>\<open>return\<close>: its promise resolves with \<^verbatim>\<open>undefined\<close>.
\<close>

definition bump :: "env \<Rightarrow> string \<Rightarrow> string \<Rightarrow> string \<Rightarrow> string \<Rightarrow> jsval io" where
  "bump env inputPath packageName beforeVersion afterVersion =
     seq (hoek_assert (truthy (GITHUB_USERNAME env)) UsernameRequired) (\<lambda>_.
     seq (hoek_assert (truthy (GITHUB_PASSWORD env)) PasswordRequired) (\<lambda>_.
     let packagePath = path_resolve env inputPath ''package.json'' in
     seq (getRepoInfo env inputPath) (\<lambda>repoInfo.
     let branch = branchName packageName afterVersion;
         message = commitMessage packageName afterVersion in
     seq (repoHasUncommittedChanges env inputPath) (\<lambda>dirty.
     seq (hoek_assert (\<not> dirty) (UncommittedChanges inputPath)) (\<lambda>_.
     seq (checkoutBranch env inputPath ''master'') (\<lambda>_.
     seq (pull env inputPath) (\<lambda>_.
     seq (call env (ReadFileSync packagePath)) (\<lambda>_.
     seq (lift (json_parse (package_json env))) (\<lambda>pkg.
     seq (lift (pkg_dependencies pkg)) (\<lambda>dependencies.
     seq (lift (js_get (runtime env) dependencies packageName)) (\<lambda>currentVersion.
     seq (lift (must_equal_message currentVersion beforeVersion)) (\<lambda>mustEqual.
     seq (hoek_assert (currentVersion = Val (JStr beforeVersion)) mustEqual) (\<lambda>_.
     seq (createBranch env inputPath branch) (\<lambda>_.
     seq (checkoutBranch env inputPath branch) (\<lambda>_.
     seq (lift (assign_dependency pkg packageName afterVersion)) (\<lambda>pkg'.
     seq (call env (WriteFileSync packagePath pkg' 2 [CHR 0x0A])) (\<lambda>_.
     seq (commitPaths env inputPath [''package.json''] message) (\<lambda>_.
     seq (push env inputPath branch) (\<lambda>_.
     seq (console_log (''Pushed '' @ branch @ '' to '' @ template ''undefined'' (owner repoInfo)
                        @ ''/'' @ template ''undefined'' (name repoInfo))) (\<lambda>_.
     seq (createPR env repoInfo branch message) (\<lambda>url.
     seq (console_log url) (\<lambda>_.
     ret Undefined))))))))))))))))))))))"

section \<open>The earlier draft of the script\<close>

text \<open>
  The second source file is a draft of \<^verbatim>\<open>bin/bump.js\<close> from before the pull
  request was added: the same helper functions, and this \<^verbatim>\<open>exports.bump\<close>.
\<close>

definition bump_draft :: "env \<Rightarrow> string \<Rightarrow> string \<Rightarrow> string \<Rightarrow> string \<Rightarrow> jsval io" where
  "bump_draft env inputPath packageName beforeVersion afterVersion =
     seq (hoek_assert (truthy (GITHUB_USERNAME env)) UsernameRequired) (\<lambda>_.
     seq (hoek_assert (truthy (GITHUB_PASSWORD env)) PasswordRequired) (\<lambda>_.
     let packagePath = path_resolve env inputPath ''package.json'' in
     seq (repoHasUncommittedChanges env inputPath) (\<lambda>dirty.
     seq (hoek_assert (\<not> dirty) (UncommittedChanges inputPath)) (\<lambda>_.
     seq (checkoutBranch env inputPath ''master'') (\<lambda>_.
     seq (pull env inputPath) (\<lambda>_.
     seq (call env (ReadFileSync packagePath)) (\<lambda>_.
     seq (lift (json_parse (package_json env))) (\<lambda>pkg.
     seq (lift (pkg_dependencies pkg)) (\<lambda>dependencies.
     seq (lift (js_get (runtime env) dependencies packageName)) (\<lambda>currentVersion.
     seq (lift (must_equal_message currentVersion beforeVersion)) (\<lambda>mustEqual.
     seq (hoek_assert (currentVersion = Val (JStr beforeVersion)) mustEqual) (\<lambda>_.
     let branch = branchName packageName afterVersion in
     seq (createBranch env inputPath branch) (\<lambda>_.
     seq (checkoutBranch env inputPath branch) (\<lambda>_.
     seq (lift (assign_dependency pkg packageName afterVersion)) (\<lambda>pkg'.
     seq (call env (WriteFileSync packagePath pkg' 2 [CHR 0x0A])) (\<lambda>_.
     let message = commitMessage packageName afterVersion in
     seq (commitPaths env inputPath [''package.json''] message) (\<lambda>_.
     seq (push env inputPath branch) (\<lambda>_.
     seq (console_log (''Pushed '' @ branch)) (\<lambda>_.
     ret Undefined)))))))))))))))))))"

section \<open>Vocabulary of the properties\<close>

text \<open>A run starts with no call made and nothing printed.\<close>

definition start :: world where
  "start = \<lparr>calls = [], stdout = []\<rparr>"

text \<open>
  What lines 147 and 148 of \<^verbatim>\<open>bin/bump.js\<close> read as the current version:
  \<^verbatim>\<open>JSON.parse(...).dependencies[packageName]\<close>, or the error they throw.
\<close>

definition recorded_version :: "env \<Rightarrow> string \<Rightarrow> error + jsval" where
  "recorded_version env packageName =
     (case json_parse (package_json env) of
        Inl e \<Rightarrow> Inl e
      | Inr pkg \<Rightarrow>
          (case pkg_dependencies pkg of
             Inl e \<Rightarrow> Inl e
           | Inr dependencies \<Rightarrow> js_get (runtime env) dependencies packageName))"

fun creates_branch :: "call \<Rightarrow> bool" where
  "creates_branch (CreateBranch b c f) = True"
| "creates_branch _ = False"

fun writes_file :: "call \<Rightarrow> bool" where
  "writes_file (WriteFileSync p v i s) = True"
| "writes_file _ = False"

fun commits :: "call \<Rightarrow> bool" where
  "commits (CreateCommit r a c m t ps) = True"
| "commits _ = False"

fun pushes :: "call \<Rightarrow> bool" where
  "pushes (RemotePush refs) = True"
| "pushes _ = False"

fun creates_pull_request :: "call \<Rightarrow> bool" where
  "creates_pull_request (PullRequestsCreate ow re h b t) = True"
| "creates_pull_request _ = False"

text \<open>The calls that change the repository, its index or a remote.\<close>

fun git_mutating :: "call \<Rightarrow> bool" where
  "git_mutating (CheckoutBranch b) = True"
| "git_mutating FetchAll = True"
| "git_mutating (MergeBranches l r) = True"
| "git_mutating (RemotePush refs) = True"
| "git_mutating (CreateBranch b c f) = True"
| "git_mutating (IndexAddByPath p) = True"
| "git_mutating IndexWrite = True"
| "git_mutating IndexWriteTree = True"
| "git_mutating (CreateCommit r a c m t ps) = True"
| "git_mutating _ = False"

text \<open>
  A run that failed without creating a branch, writing a file, committing, pushing or
  asking for a pull request.
\<close>

definition aborted_before_branch :: "(error + jsval) \<times> world \<Rightarrow> bool" where
  "aborted_before_branch run =
     ((\<exists>e. fst run = Inl e)
      \<and> (\<forall>c \<in> set (calls (snd run)).
            \<not> creates_branch c \<and> \<not> writes_file c \<and> \<not> commits c \<and> \<not> pushes c
            \<and> \<not> creates_pull_request c))"



text \<open>
  The calls of \<^verbatim>\<open>bin/bump.js\<close> in the order of its text: up to reading the
  manifest, from there up to the commit, the push, and the pull request.
\<close>

definition calls_to_read :: "env \<Rightarrow> string \<Rightarrow> call list" where
  "calls_to_read env inputPath =
     [RepositoryOpen inputPath, GetRemote ''origin'',
      RepositoryOpen inputPath, GetStatus,
      RepositoryOpen inputPath, CheckoutBranch ''master'',
      RepositoryOpen inputPath, FetchAll, MergeBranches ''master'' ''origin/master'',
      ReadFileSync (path_resolve env inputPath ''package.json'')]"

definition calls_to_commit :: "env \<Rightarrow> string \<Rightarrow> string \<Rightarrow> string \<Rightarrow> json \<Rightarrow> call list" where
  "calls_to_commit env inputPath packageName afterVersion pkg' =
     [RepositoryOpen inputPath, GetHeadCommit,
      CreateBranch (branchName packageName afterVersion) (head_commit env) False,
      RepositoryOpen inputPath, CheckoutBranch (branchName packageName afterVersion),
      WriteFileSync (path_resolve env inputPath ''package.json'') pkg' 2 [CHR 0x0A],
      RepositoryOpen inputPath, DefaultSignature, RefreshIndex,
      IndexAddByPath ''package.json'', IndexWrite, IndexWriteTree, GetHeadCommit,
      CreateCommit ''HEAD'' (signature env) (signature env)
        (commitMessage packageName afterVersion) (tree_oid env) [head_commit env]]"

definition calls_to_push :: "string \<Rightarrow> string \<Rightarrow> string \<Rightarrow> call list" where
  "calls_to_push inputPath packageName afterVersion =
     [RepositoryOpen inputPath, GetRemote ''origin'',
      RemotePush [''refs/heads/'' @ branchName packageName afterVersion
                  @ '':refs/heads/'' @ branchName packageName afterVersion]]"

definition calls_to_pull_request :: "env \<Rightarrow> repo_info \<Rightarrow> string \<Rightarrow> string \<Rightarrow> call list" where
  "calls_to_pull_request env repoInfo packageName afterVersion =
     [OctokitNew (getBaseUrl (template ''null'' (host repoInfo))),
      OctokitAuthenticate (template ''undefined'' (GITHUB_USERNAME env))
        (template ''undefined'' (GITHUB_PASSWORD env)),
      PullRequestsCreate (owner repoInfo) (name repoInfo)
        (branchName packageName afterVersion) ''master''
        (''[Technical] '' @ commitMessage packageName afterVersion)]"

text \<open>
  The naming rule in the words of the specification: every \<^verbatim>\<open>^\<close> and \<^verbatim>\<open>~\<close> is
  stripped from the version, every \<^verbatim>\<open>@\<close> and \<^verbatim>\<open>/\<close> from the package name.
\<close>

definition spec_sanitizedVersion :: "string \<Rightarrow> string" where
  "spec_sanitizedVersion v = filter (\<lambda>c. c \<noteq> CHR ''^'' \<and> c \<noteq> CHR ''~'') v"

definition spec_sanitizedPackageName :: "string \<Rightarrow> string" where
  "spec_sanitizedPackageName p = filter (\<lambda>c. c \<noteq> CHR ''@'' \<and> c \<noteq> CHR ''/'') p"

definition spec_branchName :: "string \<Rightarrow> string \<Rightarrow> string" where
  "spec_branchName packageName afterVersion =
     ''bump-'' @ spec_sanitizedPackageName packageName @ ''-v''
       @ spec_sanitizedVersion afterVersion"

definition spec_commitMessage :: "string \<Rightarrow> string \<Rightarrow> string" where
  "spec_commitMessage packageName afterVersion =
     ''Bump '' @ spec_sanitizedPackageName packageName @ '' to v''
       @ spec_sanitizedVersion afterVersion"

section \<open>Example runs\<close>

text \<open>
  The scenario of the specification: the repository at \<^verbatim>\<open>/repo\<close> with
  \<^verbatim>\<open>left-pad\<close> at \<^verbatim>\<open>1.0.0\<close>, every collaborator call succeeding.
\<close>

definition example_manifest :: json where
  "example_manifest =
     JObj [(''name'', JStr ''app''),
           (''dependencies'', JObj [(''left-pad'', JStr ''1.0.0''), (''hoek'', JStr ''^5.0.0'')]),
           (''devDependencies'', JObj [(''lab'', JStr ''^15.0.0'')])]"

definition example_env :: env where
  "example_env =
     \<lparr>GITHUB_USERNAME = Some ''octocat'',
      GITHUB_PASSWORD = Some ''hunter2'',
      runtime = es2017,
      path_resolve = (\<lambda>dir file. dir @ ''/'' @ file),
      fails = (\<lambda>history c. None),
      statuses = [],
      origin_url = \<lparr>hostname = Some ''github.com'', pathname = Some ''/lerouxb/pmg.git''\<rparr>,
      head_commit = ''c0ffee'',
      signature = ''pmg'',
      tree_oid = ''7ee'',
      package_json = Some example_manifest,
      pr_url = ''https://api.github.com/repos/lerouxb/pmg/pulls/1''\<rparr>"

definition example_bumped :: json where
  "example_bumped =
     JObj [(''name'', JStr ''app''),
           (''dependencies'', JObj [(''left-pad'', JStr ''^1.2.0''), (''hoek'', JStr ''^5.0.0'')]),
           (''devDependencies'', JObj [(''lab'', JStr ''^15.0.0'')])]"


text \<open>A manifest that names the package under \<^verbatim>\<open>devDependencies\<close> only.\<close>

definition dev_only_env :: env where
  "dev_only_env =
     example_env\<lparr>package_json :=
       Some (JObj [(''name'', JStr ''app''),
                   (''devDependencies'', JObj [(''left-pad'', JStr ''1.0.0'')])])\<rparr>"

text \<open>A manifest whose \<^verbatim>\<open>dependencies\<close> are empty.\<close>

definition no_deps_env :: env where
  "no_deps_env =
     example_env\<lparr>package_json := Some (JObj [(''name'', JStr ''app''), (''dependencies'', JObj [])])\<rparr>"

text \<open>
  A manifest with a numeral beyond the range of doubles, \<^verbatim>\<open>"timeout": 1e400\<close>, which
  \<^verbatim>\<open>JSON.parse\<close> reads as \<^verbatim>\<open>Infinity\<close>.
\<close>

definition big_manifest :: json where
  "big_manifest =
     JObj [(''name'', JStr ''app''),
           (''timeout'', JNum PositiveInfinity),
           (''dependencies'', JObj [(''left-pad'', JStr ''1.0.0'')])]"

definition big_env :: env where
  "big_env = example_env\<lparr>package_json := Some big_manifest\<rparr>"

definition big_bumped :: json where
  "big_bumped =
     JObj [(''name'', JStr ''app''),
           (''timeout'', JNum PositiveInfinity),
           (''dependencies'', JObj [(''left-pad'', JStr ''^1.2.0'')])]"

text \<open>A manifest without \<^verbatim>\<open>dependencies\<close> and without \<^verbatim>\<open>devDependencies\<close>.\<close>

definition plain_env :: env where
  "plain_env = example_env\<lparr>package_json := Some (JObj [(''name'', JStr ''app'')])\<rparr>"

text \<open>
  A manifest whose entry for the package is no version but the object
  \<^verbatim>\<open>{"toString": "1.0.0"}\<close>.
\<close>

definition odd_env :: env where
  "odd_env =
     example_env\<lparr>package_json :=
       Some (JObj [(''name'', JStr ''app''),
                   (''dependencies'',
                    JObj [(''left-pad'', JObj [(''toString'', JStr ''1.0.0'')])])])\<rparr>"

section \<open>Running a sequence\<close>

named_theorems run_simps

lemma seq_ret [run_simps]: "seq (ret x) f = f x"
  by (simp add: seq_def ret_def)

lemma seq_throw [run_simps]: "seq (throw e) f = throw e"
  by (simp add: seq_def throw_def)

lemma seq_assoc [run_simps]: "seq (seq m f) g = seq m (\<lambda>x. seq (f x) g)"
  by (auto simp: seq_def fun_eq_iff split: prod.splits sum.splits)

lemma seq_lift [run_simps]: "seq (lift r) f = (case r of Inl e \<Rightarrow> throw e | Inr x \<Rightarrow> f x)"
  by (cases r) (simp_all add: lift_def seq_ret seq_throw)

lemma seq_hoek_assert [run_simps]:
  "seq (hoek_assert c a) f = (if c then f () else throw (AssertionFailed a))"
  by (simp add: hoek_assert_def seq_ret seq_throw)

lemma seq_call [run_simps]:
  "seq (call env c) f w =
     (case fails env (calls w) c of
        Some e \<Rightarrow> (Inl (Thrown e), w\<lparr>calls := calls w @ [c]\<rparr>)
      | None \<Rightarrow> f () (w\<lparr>calls := calls w @ [c]\<rparr>))"
  by (simp add: seq_def call_def split: option.splits)

lemma call_apply [run_simps]:
  "call env c w =
     (case fails env (calls w) c of Some e \<Rightarrow> Inl (Thrown e) | None \<Rightarrow> Inr (),
      w\<lparr>calls := calls w @ [c]\<rparr>)"
  by (simp add: call_def)

lemma seq_console_log [run_simps]:
  "seq (console_log s) f w = f () (w\<lparr>stdout := stdout w @ [s]\<rparr>)"
  by (simp add: seq_def console_log_def)

lemma throw_apply [run_simps]: "throw e w = (Inl e, w)"
  by (simp add: throw_def)

lemma ret_apply [run_simps]: "ret x w = (Inr x, w)"
  by (simp add: ret_def)

lemma addByPaths_single [run_simps]: "addByPaths env [p] = call env (IndexAddByPath p)"
  by (auto simp: fun_eq_iff seq_def call_def ret_def split: option.splits)

lemmas helper_defs =
  getRepoInfo_def lookupRemote_def repoHasUncommittedChanges_def checkoutBranch_def
  pull_def push_def createBranch_def commitPaths_def createPR_def must_equal_message_def

lemmas trace_defs =
  calls_to_read_def calls_to_commit_def calls_to_push_def calls_to_pull_request_def

section \<open>Array indices are read without ambiguity\<close>

lemma digit_cases:
  "is_digit c \<Longrightarrow>
     c = CHR ''0'' \<or> c = CHR ''1'' \<or> c = CHR ''2'' \<or> c = CHR ''3'' \<or> c = CHR ''4'' \<or>
     c = CHR ''5'' \<or> c = CHR ''6'' \<or> c = CHR ''7'' \<or> c = CHR ''8'' \<or> c = CHR ''9''"
  by (simp add: is_digit_def)

lemma digit_value_less: "is_digit c \<Longrightarrow> (of_char c :: nat) - 48 < 10"
  by (drule digit_cases) (elim disjE; simp)

lemma digit_value_pos: "is_digit c \<Longrightarrow> c \<noteq> CHR ''0'' \<Longrightarrow> 0 < (of_char c :: nat) - 48"
  by (drule digit_cases) (elim disjE; simp)

lemma digit_value_inj:
  assumes "is_digit c" "is_digit c'" "(of_char c :: nat) - 48 = of_char c' - 48"
  shows "c = c'"
proof -
  have "48 \<le> (of_char c :: nat)" "48 \<le> (of_char c' :: nat)"
    using assms(1,2) by (auto dest!: digit_cases)
  with assms(3) have "(of_char c :: nat) = of_char c'" by linarith
  then show ?thesis by simp
qed

lemma decimal_value_snoc:
  "decimal_value (ks @ [c]) = 10 * decimal_value ks + (of_char c - 48)"
  by (simp add: decimal_value_def)

lemma foldl_decimal_ge: "(n::nat) \<le> foldl (\<lambda>n c. 10 * n + (of_char c - 48)) n cs"
proof (induction cs arbitrary: n)
  case Nil
  show ?case by simp
next
  case (Cons c cs)
  have "n \<le> 10 * n + (of_char c - 48)" by simp
  also have "\<dots> \<le> foldl (\<lambda>n c. 10 * n + (of_char c - 48)) (10 * n + (of_char c - 48)) cs"
    by (rule Cons.IH)
  finally show ?case by simp
qed

lemma decimal_value_pos:
  assumes "k \<noteq> []" "list_all is_digit k" "hd k \<noteq> CHR ''0''"
  shows "0 < decimal_value k"
proof (cases k)
  case Nil
  with assms show ?thesis by simp
next
  case (Cons c cs)
  with assms have "0 < (of_char c :: nat) - 48"
    by (intro digit_value_pos) simp_all
  moreover have "(of_char c :: nat) - 48 \<le> decimal_value k"
    using foldl_decimal_ge [of "of_char c - 48" cs] by (simp add: Cons decimal_value_def)
  ultimately show ?thesis by linarith
qed

lemma last_digit_unique:
  "a < 10 \<Longrightarrow> b < 10 \<Longrightarrow> 10 * x + a = 10 * y + (b::nat) \<Longrightarrow> a = b \<and> x = y"
  by presburger

lemma decimal_value_inj:
  assumes "list_all is_digit k" "k = [] \<or> hd k \<noteq> CHR ''0''"
    and "list_all is_digit k'" "k' = [] \<or> hd k' \<noteq> CHR ''0''"
    and "decimal_value k = decimal_value k'"
  shows "k = k'"
  using assms
proof (induction k arbitrary: k' rule: rev_induct)
  case Nil
  show ?case
  proof (rule ccontr)
    assume "[] \<noteq> k'"
    with Nil have "0 < decimal_value k'"
      by (intro decimal_value_pos) auto
    with Nil show False by (simp add: decimal_value_def)
  qed
next
  case (snoc c ks)
  show ?case
  proof (cases k' rule: rev_cases)
    case Nil
    have "0 < decimal_value (ks @ [c])"
      using snoc.prems by (intro decimal_value_pos) auto
    with snoc.prems Nil show ?thesis by (simp add: decimal_value_def)
  next
    case (snoc ks' c')
    have c: "(of_char c :: nat) - 48 < 10" and c': "(of_char c' :: nat) - 48 < 10"
      using snoc.prems snoc by (auto intro: digit_value_less)
    have eq: "10 * decimal_value ks + (of_char c - 48) = 10 * decimal_value ks' + (of_char c' - 48)"
      using snoc.prems(5) snoc by (simp add: decimal_value_snoc)
    from last_digit_unique [OF c c' eq]
    have d: "(of_char c :: nat) - 48 = of_char c' - 48" and v: "decimal_value ks = decimal_value ks'"
      by simp_all
    have "ks = ks'"
    proof (rule snoc.IH [OF _ _ _ _ v])
      show "list_all is_digit ks" using snoc.prems by simp
      show "ks = [] \<or> hd ks \<noteq> CHR ''0''" using snoc.prems(2) by (cases ks) auto
      show "list_all is_digit ks'" using snoc.prems snoc by simp
      show "ks' = [] \<or> hd ks' \<noteq> CHR ''0''" using snoc.prems(4) snoc by (cases ks') auto
    qed
    moreover have "c = c'"
      using d snoc.prems snoc by (intro digit_value_inj) auto
    ultimately show ?thesis using snoc by simp
  qed
qed

lemma array_index_inj:
  assumes "array_index k = Some i" "array_index k' = Some i"
  shows "k = k'"
proof -
  have k: "k \<noteq> []" "list_all is_digit k" "k = ''0'' \<or> hd k \<noteq> CHR ''0''" "decimal_value k = i"
    using assms(1) by (simp_all add: array_index_def split: if_splits)
  have k': "k' \<noteq> []" "list_all is_digit k'" "k' = ''0'' \<or> hd k' \<noteq> CHR ''0''"
    "decimal_value k' = i"
    using assms(2) by (simp_all add: array_index_def split: if_splits)
  show ?thesis
  proof (cases "hd k = CHR ''0''")
    case True
    with k have k0: "k = ''0''" by simp
    then have "i = 0" using k(4) by (simp add: decimal_value_def)
    show ?thesis
    proof (cases "hd k' = CHR ''0''")
      case True
      with k' k0 show ?thesis by simp
    next
      case False
      then have "0 < decimal_value k'" using k' by (intro decimal_value_pos) auto
      with \<open>i = 0\<close> k'(4) show ?thesis by simp
    qed
  next
    case False
    note nz = this
    show ?thesis
    proof (cases "hd k' = CHR ''0''")
      case True
      with k' have "k' = ''0''" by simp
      then have "i = 0" using k'(4) by (simp add: decimal_value_def)
      moreover have "0 < decimal_value k" using k nz by (intro decimal_value_pos) auto
      ultimately show ?thesis using k(4) by simp
    next
      case False
      show ?thesis
        by (rule decimal_value_inj) (use k k' nz False in auto)
    qed
  qed
qed

section \<open>Assigning to a property that holds data\<close>

lemma js_get_Val_cases:
  assumes "js_get rt (Some d) k = Inr (Val x)"
  obtains (obj) fs where "d = JObj fs" "map_of fs k = Some x"
  | (arr) xs i where "d = JArr xs" "array_index k = Some i" "i < length xs" "x = xs ! i"
  | (str) s i where "d = JStr s" "array_index k = Some i" "i < length s" "x = JStr [s ! i]"
  using assms
  by (cases d)
     (auto simp: builtin_or_undefined_def split: option.splits if_splits)

text \<open>No assignment to a property that reads as data of the document is left out.\<close>

lemma js_set_modelled:
  assumes "js_get rt (Some d) k = Inr (Val x)"
  shows "js_set d k v \<noteq> Inl OutsideModel"
  using assms by (cases rule: js_get_Val_cases) auto

lemma js_set_same:
  assumes "js_get rt (Some d) k = Inr (Val x)" "js_set d k v = Inr d'"
  shows "js_get rt (Some d') k = Inr (Val v)"
  using assms(1)
proof (cases rule: js_get_Val_cases)
  case (obj fs)
  with assms(2) show ?thesis by (auto simp: update_conv')
next
  case (arr xs i)
  with assms(2) show ?thesis by auto
next
  case (str s i)
  with assms(2) show ?thesis by auto
qed

lemma js_set_other:
  assumes "js_get rt (Some d) k = Inr (Val x)" "js_set d k v = Inr d'" "k' \<noteq> k"
  shows "js_get rt (Some d') k' = js_get rt (Some d) k'"
  using assms(1)
proof (cases rule: js_get_Val_cases)
  case (obj fs)
  with assms(2,3) show ?thesis by (auto simp: update_conv')
next
  case (arr xs i)
  have "j \<noteq> i" if "array_index k' = Some j" for j
    using that arr(2) assms(3) array_index_inj by blast
  with arr assms(2) show ?thesis by (auto split: option.splits)
next
  case (str s i)
  with assms(2) show ?thesis by auto
qed

lemma update_keys_present:
  "map_of fs k = Some x \<Longrightarrow> map fst (AList.update k v fs) = map fst fs"
  by (induction fs) auto

text \<open>
  What \<open>assign_dependency\<close> leaves behind when the entry read as a string before:
  the entry holds the new version, every other entry of \<^verbatim>\<open>dependencies\<close> and every
  other field of the manifest reads as before, and the fields keep their order.
\<close>

lemma assign_dependency_frame:
  assumes read: "pkg_dependencies pkg = Inr dependencies"
    "js_get rt dependencies packageName = Inr (Val x)"
    and assign: "assign_dependency pkg packageName afterVersion = Inr pkg'"
  shows "\<exists>fs fs' deps deps'.
           pkg = JObj fs \<and> pkg' = JObj fs'
         \<and> dependencies = Some deps
         \<and> map_of fs ''dependencies'' = Some deps
         \<and> map_of fs' ''dependencies'' = Some deps'
         \<and> map fst fs' = map fst fs
         \<and> (\<forall>field. field \<noteq> ''dependencies'' \<longrightarrow> map_of fs' field = map_of fs field)
         \<and> js_get rt (Some deps') packageName = Inr (Val (JStr afterVersion))
         \<and> (\<forall>other. other \<noteq> packageName \<longrightarrow>
               js_get rt (Some deps') other = js_get rt (Some deps) other)"
proof -
  from read(2) obtain deps where deps: "dependencies = Some deps"
    by (cases dependencies) auto
  with read(1) obtain fs where fs: "pkg = JObj fs" "map_of fs ''dependencies'' = Some deps"
    by (cases pkg) auto
  from assign fs deps obtain deps' where
    set: "js_set deps packageName (JStr afterVersion) = Inr deps'"
    and pkg': "pkg' = JObj (AList.update ''dependencies'' deps' fs)"
    by (auto simp: assign_dependency_def split: sum.splits)
  have get: "js_get rt (Some deps) packageName = Inr (Val x)"
    using read(2) deps by simp
  show ?thesis
    using fs deps pkg' js_set_same [OF get set] js_set_other [OF get set]
    by (auto simp: update_conv' update_keys_present)
qed

lemma assign_dependency_cases:
  assumes "pkg_dependencies pkg = Inr dependencies"
    "js_get rt dependencies packageName = Inr (Val x)"
    "assign_dependency pkg packageName afterVersion = Inr pkg'"
  obtains (assigned) fs fs' deps deps' where
    "pkg = JObj fs" "pkg' = JObj fs'"
    "dependencies = Some deps"
    "map_of fs ''dependencies'' = Some deps"
    "map_of fs' ''dependencies'' = Some deps'"
    "map fst fs' = map fst fs"
    "\<forall>field. field \<noteq> ''dependencies'' \<longrightarrow> map_of fs' field = map_of fs field"
    "js_get rt (Some deps') packageName = Inr (Val (JStr afterVersion))"
    "\<forall>other. other \<noteq> packageName \<longrightarrow> js_get rt (Some deps') other = js_get rt (Some deps) other"
  using assign_dependency_frame [OF assms] by (elim exE conjE) (rule that)

section \<open>What is read back from the written file\<close>

lemma written_exact: "exact v \<Longrightarrow> written v = v"
proof (induction v rule: written.induct)
  case (4 xs)
  then have "map written xs = xs"
    by (intro map_idI) (simp add: list_all_iff)
  then show ?case by simp
next
  case (5 fs)
  have "(case kv of (k, v) \<Rightarrow> (k, written v)) = kv" if "kv \<in> set fs" for kv
  proof (cases kv)
    case (Pair k v)
    with that 5 show ?thesis by (auto simp: list_all_iff)
  qed
  then have "map (\<lambda>(k, v). (k, written v)) fs = fs"
    by (intro map_idI)
  then show ?case by simp
qed simp_all

text \<open>
  Reading a property of a value that holds data under some name gives, after the
  write, what it gave before, as written.
\<close>

lemma js_get_written:
  assumes "js_get rt (Some d) k0 = Inr (Val x)"
  shows "js_get rt (Some (written d)) k = map_sum id written_val (js_get rt (Some d) k)"
  using assms
proof (cases rule: js_get_Val_cases)
  case (obj fs)
  then show ?thesis
    by (cases "map_of fs k") (simp_all add: map_of_map builtin_or_undefined_def)
next
  case (arr xs i)
  then show ?thesis
    by (simp add: builtin_or_undefined_def split: option.splits)
next
  case (str s i)
  then show ?thesis
    by (simp add: builtin_or_undefined_def split: option.splits)
qed

section \<open>The assignments left out are never reached\<close>

lemma js_get_modelled: "js_get rt d k \<noteq> Inl OutsideModel"
proof (cases d)
  case None
  then show ?thesis by simp
next
  case (Some v)
  then show ?thesis by (cases v) simp_all
qed

lemma pkg_dependencies_modelled: "pkg_dependencies pkg \<noteq> Inl OutsideModel"
  by (cases pkg) simp_all

lemma assign_dependency_modelled:
  assumes "pkg_dependencies pkg = Inr dependencies"
    "js_get rt dependencies packageName = Inr (Val x)"
  shows "assign_dependency pkg packageName afterVersion \<noteq> Inl OutsideModel"
proof -
  from assms(2) obtain deps where deps: "dependencies = Some deps"
    by (cases dependencies) auto
  with assms(2) have "js_set deps packageName (JStr afterVersion) \<noteq> Inl OutsideModel"
    by (intro js_set_modelled) simp
  with assms(1) deps show ?thesis
    by (auto simp: assign_dependency_def split: sum.splits json.splits)
qed

lemma assign_dependency_reached:
  assumes "assign_dependency pkg packageName afterVersion = Inl OutsideModel"
    "pkg_dependencies pkg = Inr dependencies"
    "js_get rt dependencies packageName = Inr (Val x)"
  shows False
  using assign_dependency_modelled [OF assms(2,3)] assms(1) by simp

text \<open>Neither script ever fails with \<open>OutsideModel\<close>.\<close>

lemma bump_modelled:
  assumes "bump env inputPath packageName beforeVersion afterVersion start = (Inl OutsideModel, w')"
  shows False
  using assms
  apply (simp add: bump_def helper_defs run_simps start_def Let_def json_parse_def
      repo_info_of_def js_get_modelled pkg_dependencies_modelled
      del: addByPaths.simps split: option.splits if_splits sum.splits)
  apply (erule (2) assign_dependency_reached)
  done

lemma bump_draft_modelled:
  assumes "bump_draft env inputPath packageName beforeVersion afterVersion start =
      (Inl OutsideModel, w')"
  shows False
  using assms
  apply (simp add: bump_draft_def helper_defs run_simps start_def Let_def json_parse_def
      js_get_modelled pkg_dependencies_modelled
      del: addByPaths.simps split: option.splits if_splits sum.splits)
  apply (erule (2) assign_dependency_reached)
  done

section \<open>Branch and commit names\<close>

lemma replace_class_global_empty:
  "replace_class_global cls [] s = filter (\<lambda>c. c \<notin> set cls) s"
  by (induction s) (simp_all add: replace_class_global_def)

lemma replace_first_char:
  "replace_first [c] r s =
     takeWhile (\<lambda>x. x \<noteq> c) s @ (if c \<in> set s then r else []) @ drop 1 (dropWhile (\<lambda>x. x \<noteq> c) s)"
  by (induction s) auto

text \<open>
  C2, as the code has it. The branch name is \<^verbatim>\<open>bump-<P>-v<V>\<close> and the commit
  message \<^verbatim>\<open>Bump <P> to v<V>\<close>, where \<open>V\<close> is the version without any \<^verbatim>\<open>^\<close>
  and \<^verbatim>\<open>~\<close>, and \<open>P\<close> is the package name with its first \<^verbatim>\<open>@\<close> removed and
  then its first \<^verbatim>\<open>/\<close> replaced by \<^verbatim>\<open>-\<close>; later occurrences of \<^verbatim>\<open>@\<close> and
  \<^verbatim>\<open>/\<close> stay.
\<close>

theorem naming_replaces_first_occurrence:
  "let V = filter (\<lambda>c. c \<noteq> CHR ''^'' \<and> c \<noteq> CHR ''~'') afterVersion;
       q = takeWhile (\<lambda>c. c \<noteq> CHR ''@'') packageName
             @ drop 1 (dropWhile (\<lambda>c. c \<noteq> CHR ''@'') packageName);
       P = takeWhile (\<lambda>c. c \<noteq> CHR ''/'') q
             @ (if CHR ''/'' \<in> set q then ''-'' else [])
             @ drop 1 (dropWhile (\<lambda>c. c \<noteq> CHR ''/'') q)
   in safeVersion afterVersion = V
    \<and> safePackageName packageName = P
    \<and> branchName packageName afterVersion = ''bump-'' @ P @ ''-v'' @ V
    \<and> commitMessage packageName afterVersion = ''Bump '' @ P @ '' to v'' @ V"
proof -
  have v: "safeVersion afterVersion = filter (\<lambda>c. c \<noteq> CHR ''^'' \<and> c \<noteq> CHR ''~'') afterVersion"
    by (simp add: safeVersion_def replace_class_global_empty)
  have q: "replace_first ''@'' [] packageName =
      takeWhile (\<lambda>c. c \<noteq> CHR ''@'') packageName
        @ drop 1 (dropWhile (\<lambda>c. c \<noteq> CHR ''@'') packageName)"
    by (simp add: replace_first_char)
  show ?thesis
    unfolding Let_def branchName_def commitMessage_def v
    by (simp add: safePackageName_def q replace_first_char [of "CHR ''/''"])
qed

text \<open>
  C2 as stated fails on a scoped package: for \<^verbatim>\<open>@babel/core\<close> the code gives
  \<^verbatim>\<open>bump-babel-core-v7.0.0\<close>, stripping every \<^verbatim>\<open>@\<close> and \<^verbatim>\<open>/\<close> would give
  \<^verbatim>\<open>bump-babelcore-v7.0.0\<close>.
\<close>

theorem naming_strips_every_counterexample:
  "branchName ''@babel/core'' ''^7.0.0'' = ''bump-babel-core-v7.0.0''
   \<and> spec_branchName ''@babel/core'' ''^7.0.0'' = ''bump-babelcore-v7.0.0''
   \<and> commitMessage ''@babel/core'' ''^7.0.0'' = ''Bump babel-core to v7.0.0''
   \<and> spec_commitMessage ''@babel/core'' ''^7.0.0'' = ''Bump babelcore to v7.0.0''
   \<and> branchName ''@babel/core'' ''^7.0.0'' \<noteq> spec_branchName ''@babel/core'' ''^7.0.0''
   \<and> commitMessage ''@babel/core'' ''^7.0.0'' \<noteq> spec_commitMessage ''@babel/core'' ''^7.0.0''"
  by (simp add: branchName_def commitMessage_def safeVersion_def safePackageName_def
      replace_class_global_def spec_branchName_def spec_commitMessage_def
      spec_sanitizedVersion_def spec_sanitizedPackageName_def)

section \<open>The API base URL\<close>

text \<open>
  C8: the host \<^verbatim>\<open>github.com\<close> maps to \<^verbatim>\<open>https://api.github.com\<close>, every other
  host \<open>H\<close> to \<^verbatim>\<open>https://H/api/v3\<close>.
\<close>

theorem getBaseUrl_by_host:
  "getBaseUrl ''github.com'' = ''https://api.github.com''
   \<and> (\<forall>H. H \<noteq> ''github.com'' \<longrightarrow> getBaseUrl H = ''https://'' @ H @ ''/api/v3'')"
  by (simp add: getBaseUrl_def)

theorem getBaseUrl_by_host_witness:
  "''git.example.com'' \<noteq> ''github.com''
   \<and> getBaseUrl ''git.example.com'' = ''https://git.example.com/api/v3''"
  using conjunct2 [OF getBaseUrl_by_host, rule_format, of "''git.example.com''"]
  by simp

section \<open>Missing credentials\<close>

text \<open>
  C5: when \<^verbatim>\<open>GITHUB_USERNAME\<close> or \<^verbatim>\<open>GITHUB_PASSWORD\<close> is absent, the run fails
  with the assertion on the first missing one and the world is as it was: no call has
  been made and nothing has been printed. The draft does the same.
\<close>

theorem missing_credentials_fail_first:
  assumes "GITHUB_USERNAME env = None \<or> GITHUB_PASSWORD env = None"
  shows "bump env inputPath packageName beforeVersion afterVersion w =
           (Inl (AssertionFailed
                  (if truthy (GITHUB_USERNAME env) then PasswordRequired else UsernameRequired)), w)
       \<and> bump_draft env inputPath packageName beforeVersion afterVersion w =
           (Inl (AssertionFailed
                  (if truthy (GITHUB_USERNAME env) then PasswordRequired else UsernameRequired)), w)"
  using assms
  by (auto simp: bump_def bump_draft_def seq_hoek_assert throw_apply truthy_def)

theorem missing_credentials_fail_first_witness:
  "GITHUB_PASSWORD (example_env\<lparr>GITHUB_PASSWORD := None\<rparr>) = None
   \<and> bump (example_env\<lparr>GITHUB_PASSWORD := None\<rparr>) ''/repo'' ''left-pad'' ''1.0.0'' ''^1.2.0'' start =
       (Inl (AssertionFailed PasswordRequired), start)
   \<and> calls start = [] \<and> stdout start = []"
  using missing_credentials_fail_first
    [of "example_env\<lparr>GITHUB_PASSWORD := None\<rparr>" "''/repo''" "''left-pad''" "''1.0.0''" "''^1.2.0''" start]
  by (simp add: example_env_def truthy_def start_def)

section \<open>A working copy with changes\<close>

lemma dirty_run:
  "bump (example_env\<lparr>statuses := [''README.md'']\<rparr>) ''/repo'' ''left-pad'' ''1.0.0'' ''^1.2.0'' start =
     (Inl (AssertionFailed (UncommittedChanges ''/repo'')),
      \<lparr>calls = [RepositoryOpen ''/repo'', GetRemote ''origin'', RepositoryOpen ''/repo'', GetStatus],
       stdout = []\<rparr>)"
  by (simp add: bump_def helper_defs run_simps start_def Let_def
      example_env_def truthy_def repo_info_of_def
      del: addByPaths.simps)

text \<open>
  C4: when the status of the working copy lists a change, the run fails, and no call
  it has made changes the repository, its index or a remote (no checkout, no fetch or
  merge, no branch, no commit, no push), writes a file or asks for a pull request;
  nothing is printed. When the status was asked and no call threw, the failure is the
  assertion \<^verbatim>\<open>The repo (${inputPath}) has uncommitted changes.\<close>
\<close>

theorem dirty_tree_fails_before_mutation:
  assumes dirty: "statuses env \<noteq> []"
    and run: "bump env inputPath packageName beforeVersion afterVersion start = (r, w')"
  shows "\<exists>e. r = Inl e
           \<and> (\<forall>c \<in> set (calls w').
                 \<not> git_mutating c \<and> \<not> writes_file c \<and> \<not> creates_pull_request c)
           \<and> stdout w' = []
           \<and> (GetStatus \<in> set (calls w') \<longrightarrow> (\<forall>t. e \<noteq> Thrown t) \<longrightarrow>
                e = AssertionFailed (UncommittedChanges inputPath))"
  using assms
  by (auto simp: bump_def helper_defs run_simps start_def Let_def
      simp del: addByPaths.simps split: option.splits if_splits sum.splits)

theorem dirty_tree_fails_before_mutation_witness:
  "statuses (example_env\<lparr>statuses := [''README.md'']\<rparr>) \<noteq> []
   \<and> GetStatus \<in> set (calls (snd (bump (example_env\<lparr>statuses := [''README.md'']\<rparr>)
                                      ''/repo'' ''left-pad'' ''1.0.0'' ''^1.2.0'' start)))
   \<and> filter (\<lambda>c. git_mutating c \<or> writes_file c \<or> creates_pull_request c)
        (calls (snd (bump (example_env\<lparr>statuses := [''README.md'']\<rparr>)
                       ''/repo'' ''left-pad'' ''1.0.0'' ''^1.2.0'' start))) = []
   \<and> fst (bump (example_env\<lparr>statuses := [''README.md'']\<rparr>)
            ''/repo'' ''left-pad'' ''1.0.0'' ''^1.2.0'' start) =
       Inl (AssertionFailed (UncommittedChanges ''/repo''))"
proof -
  let ?env = "example_env\<lparr>statuses := [''README.md'']\<rparr>"
  let ?run = "bump ?env ''/repo'' ''left-pad'' ''1.0.0'' ''^1.2.0'' start"
  have dirty: "statuses ?env \<noteq> []"
    by simp
  have asked: "GetStatus \<in> set (calls (snd ?run))"
    by (simp add: dirty_run)
  from dirty_tree_fails_before_mutation [OF dirty surjective_pairing [of ?run]]
  obtain e where
    e: "fst ?run = Inl e"
    and quiet: "\<forall>c \<in> set (calls (snd ?run)).
        \<not> git_mutating c \<and> \<not> writes_file c \<and> \<not> creates_pull_request c"
    and why: "GetStatus \<in> set (calls (snd ?run)) \<longrightarrow> (\<forall>t. e \<noteq> Thrown t) \<longrightarrow>
        e = AssertionFailed (UncommittedChanges ''/repo'')"
    by (elim exE conjE)
  from e have "\<forall>t. e \<noteq> Thrown t"
    by (auto simp: dirty_run)
  with why asked have "e = AssertionFailed (UncommittedChanges ''/repo'')"
    by simp
  with e have "fst ?run = Inl (AssertionFailed (UncommittedChanges ''/repo''))"
    by simp
  moreover from quiet
  have "filter (\<lambda>c. git_mutating c \<or> writes_file c \<or> creates_pull_request c)
      (calls (snd ?run)) = []"
    by (simp add: filter_empty_conv)
  ultimately show ?thesis
    using dirty asked by (intro conjI)
qed

section \<open>Runs that stop at the version check or before\<close>

lemma bump_mismatch:
  assumes "bump env inputPath packageName beforeVersion afterVersion start = (r, w')"
    and "recorded_version env packageName \<noteq> Inr (Val (JStr beforeVersion))"
  shows "\<exists>e. r = Inl e
           \<and> prefix (calls w') (calls_to_read env inputPath)
           \<and> stdout w' = []
           \<and> (calls w' = calls_to_read env inputPath \<longrightarrow>
                (\<exists>t. e = Thrown t)
                \<or> (case recorded_version env packageName of
                      Inl e' \<Rightarrow> e = e'
                    | Inr v \<Rightarrow>
                        e = (if unprintable v then TypeError
                             else AssertionFailed (MustEqual v beforeVersion))))"
  using assms
  by (auto simp: bump_def helper_defs run_simps start_def Let_def recorded_version_def
      calls_to_read_def
      simp del: addByPaths.simps split: option.splits if_splits sum.splits)

lemma bump_draft_mismatch:
  assumes "bump_draft env inputPath packageName beforeVersion afterVersion start = (r, w')"
    and "recorded_version env packageName \<noteq> Inr (Val (JStr beforeVersion))"
  shows "\<exists>e. r = Inl e
           \<and> prefix (calls w') (drop 2 (calls_to_read env inputPath))
           \<and> stdout w' = []
           \<and> (calls w' = drop 2 (calls_to_read env inputPath) \<longrightarrow>
                (\<exists>t. e = Thrown t)
                \<or> (case recorded_version env packageName of
                      Inl e' \<Rightarrow> e = e'
                    | Inr v \<Rightarrow>
                        e = (if unprintable v then TypeError
                             else AssertionFailed (MustEqual v beforeVersion))))"
  using assms
  by (auto simp: bump_draft_def helper_defs run_simps start_def Let_def recorded_version_def
      calls_to_read_def
      simp del: addByPaths.simps split: option.splits if_splits sum.splits)

lemma calls_to_read_harmless:
  assumes "prefix cs (calls_to_read env inputPath) \<or> prefix cs (drop 2 (calls_to_read env inputPath))"
    and "c \<in> set cs"
  shows "\<not> creates_branch c \<and> \<not> writes_file c \<and> \<not> commits c \<and> \<not> pushes c
       \<and> \<not> creates_pull_request c"
proof -
  from assms(1) have "set cs \<subseteq> set (calls_to_read env inputPath)"
    by (auto dest: set_mono_prefix in_set_dropD)
  with assms(2) have "c \<in> set (calls_to_read env inputPath)" by (rule rev_subsetD)
  then show ?thesis by (auto simp: calls_to_read_def)
qed

lemma stale_run:
  "bump example_env ''/repo'' ''left-pad'' ''0.9.0'' ''^1.2.0'' start =
     (Inl (AssertionFailed (MustEqual (Val (JStr ''1.0.0'')) ''0.9.0'')),
      \<lparr>calls = calls_to_read example_env ''/repo'', stdout = []\<rparr>)"
  by (simp add: bump_def helper_defs run_simps start_def Let_def json_parse_def
      example_env_def example_manifest_def truthy_def repo_info_of_def calls_to_read_def
      del: addByPaths.simps)

lemma no_deps_run:
  "bump no_deps_env ''/repo'' ''left-pad'' ''1.0.0'' ''^1.2.0'' start =
     (Inl (AssertionFailed (MustEqual Undefined ''1.0.0'')),
      \<lparr>calls = calls_to_read no_deps_env ''/repo'', stdout = []\<rparr>)"
  by (simp add: bump_def helper_defs run_simps start_def Let_def json_parse_def
      no_deps_env_def example_env_def truthy_def repo_info_of_def calls_to_read_def
      builtin_or_undefined_def object_prototype_def
      del: addByPaths.simps)

lemma plain_run:
  "bump plain_env ''/repo'' ''left-pad'' ''1.0.0'' ''^1.2.0'' start =
     (Inl TypeError, \<lparr>calls = calls_to_read plain_env ''/repo'', stdout = []\<rparr>)"
  by (simp add: bump_def helper_defs run_simps start_def Let_def json_parse_def
      plain_env_def example_env_def truthy_def repo_info_of_def calls_to_read_def
      del: addByPaths.simps)

lemma odd_run:
  "bump odd_env ''/repo'' ''left-pad'' ''1.0.0'' ''^1.2.0'' start =
     (Inl TypeError, \<lparr>calls = calls_to_read odd_env ''/repo'', stdout = []\<rparr>)"
  by (simp add: bump_def helper_defs run_simps start_def Let_def json_parse_def
      odd_env_def example_env_def truthy_def repo_info_of_def calls_to_read_def
      del: addByPaths.simps)

text \<open>
  C3, as the code has it. When what the manifest records for the package is not the
  string \<open>beforeVersion\<close>, the run fails and has created no branch, written no file,
  made no commit, no push and no pull request; the draft likewise. When every call up
  to the read of the manifest was made and none of them threw, the failure is
  \<^item> the assertion \<^verbatim>\<open>${currentVersion} must equal ${beforeVersion}\<close> when the lookup
    gave a value that can be written into the message (a string, \<^verbatim>\<open>undefined\<close>, ...);
  \<^item> a TypeError when the lookup gave an object that cannot be converted to a string;
  \<^item> the error of the lookup itself when it threw: a TypeError for a manifest without
    \<^verbatim>\<open>dependencies\<close>, a SyntaxError for a file that is not JSON.
\<close>

theorem version_mismatch_aborts_before_branch:
  assumes mismatch: "recorded_version env packageName \<noteq> Inr (Val (JStr beforeVersion))"
    and run: "bump env inputPath packageName beforeVersion afterVersion start = (r, w')"
    and draft: "bump_draft env inputPath packageName beforeVersion afterVersion start = (r0, w0)"
  shows "aborted_before_branch (r, w') \<and> aborted_before_branch (r0, w0)
       \<and> (calls w' = calls_to_read env inputPath \<longrightarrow> (\<forall>t. r \<noteq> Inl (Thrown t)) \<longrightarrow>
            r = Inl (case recorded_version env packageName of
                       Inl e \<Rightarrow> e
                     | Inr v \<Rightarrow>
                         if unprintable v then TypeError
                         else AssertionFailed (MustEqual v beforeVersion)))
       \<and> (calls w0 = drop 2 (calls_to_read env inputPath) \<longrightarrow> (\<forall>t. r0 \<noteq> Inl (Thrown t)) \<longrightarrow>
            r0 = Inl (case recorded_version env packageName of
                        Inl e \<Rightarrow> e
                      | Inr v \<Rightarrow>
                          if unprintable v then TypeError
                          else AssertionFailed (MustEqual v beforeVersion)))"
proof -
  from bump_mismatch [OF run mismatch] obtain e where
    e: "r = Inl e" "prefix (calls w') (calls_to_read env inputPath)"
    "calls w' = calls_to_read env inputPath \<longrightarrow>
       (\<exists>t. e = Thrown t)
       \<or> (case recorded_version env packageName of
             Inl e' \<Rightarrow> e = e'
           | Inr v \<Rightarrow>
               e = (if unprintable v then TypeError
                    else AssertionFailed (MustEqual v beforeVersion)))"
    by (elim exE conjE)
  from bump_draft_mismatch [OF draft mismatch] obtain e0 where
    e0: "r0 = Inl e0" "prefix (calls w0) (drop 2 (calls_to_read env inputPath))"
    "calls w0 = drop 2 (calls_to_read env inputPath) \<longrightarrow>
       (\<exists>t. e0 = Thrown t)
       \<or> (case recorded_version env packageName of
             Inl e' \<Rightarrow> e0 = e'
           | Inr v \<Rightarrow>
               e0 = (if unprintable v then TypeError
                     else AssertionFailed (MustEqual v beforeVersion)))"
    by (elim exE conjE)
  have a: "aborted_before_branch (r, w')"
    unfolding aborted_before_branch_def using e(1) calls_to_read_harmless [OF disjI1 [OF e(2)]]
    by simp
  have a0: "aborted_before_branch (r0, w0)"
    unfolding aborted_before_branch_def using e0(1) calls_to_read_harmless [OF disjI2 [OF e0(2)]]
    by simp
  have b: "r = Inl (case recorded_version env packageName of
                       Inl e \<Rightarrow> e
                     | Inr v \<Rightarrow>
                         if unprintable v then TypeError
                         else AssertionFailed (MustEqual v beforeVersion))"
    if "calls w' = calls_to_read env inputPath" "\<forall>t. r \<noteq> Inl (Thrown t)"
    using that e(1,3) by (auto split: sum.splits)
  have b0: "r0 = Inl (case recorded_version env packageName of
                       Inl e \<Rightarrow> e
                     | Inr v \<Rightarrow>
                         if unprintable v then TypeError
                         else AssertionFailed (MustEqual v beforeVersion))"
    if "calls w0 = drop 2 (calls_to_read env inputPath)" "\<forall>t. r0 \<noteq> Inl (Thrown t)"
    using that e0(1,3) by (auto split: sum.splits)
  from a a0 b b0 show ?thesis by (intro conjI impI)
qed

theorem version_mismatch_aborts_before_branch_witness:
  "recorded_version example_env ''left-pad'' \<noteq> Inr (Val (JStr ''0.9.0''))
   \<and> recorded_version example_env ''left-pad'' = Inr (Val (JStr ''1.0.0''))
   \<and> calls (snd (bump example_env ''/repo'' ''left-pad'' ''0.9.0'' ''^1.2.0'' start)) =
       calls_to_read example_env ''/repo''
   \<and> aborted_before_branch (bump example_env ''/repo'' ''left-pad'' ''0.9.0'' ''^1.2.0'' start)
   \<and> fst (bump example_env ''/repo'' ''left-pad'' ''0.9.0'' ''^1.2.0'' start) =
       Inl (AssertionFailed (MustEqual (Val (JStr ''1.0.0'')) ''0.9.0''))"
proof -
  let ?run = "bump example_env ''/repo'' ''left-pad'' ''0.9.0'' ''^1.2.0'' start"
  let ?draft = "bump_draft example_env ''/repo'' ''left-pad'' ''0.9.0'' ''^1.2.0'' start"
  have recorded: "recorded_version example_env ''left-pad'' = Inr (Val (JStr ''1.0.0''))"
    by (simp add: recorded_version_def json_parse_def example_env_def example_manifest_def)
  then have mismatch: "recorded_version example_env ''left-pad'' \<noteq> Inr (Val (JStr ''0.9.0''))"
    by simp
  have reached: "calls (snd ?run) = calls_to_read example_env ''/repo''"
    by (simp add: stale_run)
  have not_thrown: "\<forall>t. fst ?run \<noteq> Inl (Thrown t)"
    by (simp add: stale_run)
  note inst = version_mismatch_aborts_before_branch
    [OF mismatch surjective_pairing [of ?run] surjective_pairing [of ?draft]]
  from inst have aborted: "aborted_before_branch ?run"
    by simp
  from inst have "calls (snd ?run) = calls_to_read example_env ''/repo'' \<longrightarrow>
      (\<forall>t. fst ?run \<noteq> Inl (Thrown t)) \<longrightarrow>
      fst ?run = Inl (case recorded_version example_env ''left-pad'' of
                       Inl e \<Rightarrow> e
                     | Inr v \<Rightarrow>
                         if unprintable v then TypeError
                         else AssertionFailed (MustEqual v ''0.9.0''))"
    by (elim conjE)
  with reached not_thrown
  have "fst ?run = Inl (AssertionFailed (MustEqual (Val (JStr ''1.0.0'')) ''0.9.0''))"
    by (simp add: recorded)
  with mismatch recorded reached aborted show ?thesis by (intro conjI)
qed

text \<open>
  C3 as stated fails where the failure is no precondition error. A manifest without
  \<^verbatim>\<open>dependencies\<close> records no version for the package, and the lookup throws a
  TypeError. A manifest whose entry for the package is the object
  \<^verbatim>\<open>{"toString": "1.0.0"}\<close> records a value that is not the string \<^verbatim>\<open>1.0.0\<close>, and
  writing it into the message of the assertion throws a TypeError.
\<close>

theorem precondition_error_counterexample:
  "recorded_version plain_env ''left-pad'' \<noteq> Inr (Val (JStr ''1.0.0''))
   \<and> fst (bump plain_env ''/repo'' ''left-pad'' ''1.0.0'' ''^1.2.0'' start) = Inl TypeError
   \<and> recorded_version odd_env ''left-pad'' = Inr (Val (JObj [(''toString'', JStr ''1.0.0'')]))
   \<and> recorded_version odd_env ''left-pad'' \<noteq> Inr (Val (JStr ''1.0.0''))
   \<and> fst (bump odd_env ''/repo'' ''left-pad'' ''1.0.0'' ''^1.2.0'' start) = Inl TypeError
   \<and> Inl TypeError \<noteq> (Inl (AssertionFailed (MustEqual
         (Val (JObj [(''toString'', JStr ''1.0.0'')])) ''1.0.0'')) :: error + jsval)"
proof -
  have plain: "recorded_version plain_env ''left-pad'' = Inl TypeError"
    by (simp add: recorded_version_def json_parse_def plain_env_def example_env_def)
  have odd: "recorded_version odd_env ''left-pad'' =
      Inr (Val (JObj [(''toString'', JStr ''1.0.0'')]))"
    by (simp add: recorded_version_def json_parse_def odd_env_def example_env_def)
  show ?thesis
    by (simp add: plain odd plain_run odd_run)
qed

section \<open>A package that \<^verbatim>\<open>dependencies\<close> does not list\<close>

lemma dev_only_run:
  "bump dev_only_env ''/repo'' ''left-pad'' ''1.0.0'' ''^1.2.0'' start =
     (Inl TypeError, \<lparr>calls = calls_to_read dev_only_env ''/repo'', stdout = []\<rparr>)"
  by (simp add: bump_def helper_defs run_simps start_def Let_def json_parse_def
      dev_only_env_def example_env_def truthy_def repo_info_of_def calls_to_read_def
      del: addByPaths.simps)

lemma inherited_name_run:
  "bump no_deps_env ''/repo'' ''constructor'' ''1.0.0'' ''^1.2.0'' start =
     (Inl (AssertionFailed (MustEqual Builtin ''1.0.0'')),
      \<lparr>calls = calls_to_read no_deps_env ''/repo'', stdout = []\<rparr>)"
  by (simp add: bump_def helper_defs run_simps start_def Let_def json_parse_def
      no_deps_env_def example_env_def truthy_def repo_info_of_def calls_to_read_def
      builtin_or_undefined_def object_prototype_def
      del: addByPaths.simps)

text \<open>
  C10, as the code has it. The version the precondition consults is the entry of the
  top-level \<^verbatim>\<open>dependencies\<close> alone, and a run on a manifest without that entry fails
  before any branch is created. When \<^verbatim>\<open>dependencies\<close> is a mapping without the name,
  the precondition compares \<open>beforeVersion\<close> with \<^verbatim>\<open>undefined\<close>, or with an inherited
  member when the name is one of \<^verbatim>\<open>Object.prototype\<close>. When the manifest has no
  \<^verbatim>\<open>dependencies\<close> at all, the lookup throws a TypeError and nothing is compared.
\<close>

theorem absent_dependency_aborts_before_branch:
  assumes manifest: "package_json env = Some pkg"
    and absent: "pkg_dependencies pkg = Inr None
      \<or> (\<exists>ds. pkg_dependencies pkg = Inr (Some (JObj ds)) \<and> map_of ds packageName = None)"
    and run: "bump env inputPath packageName beforeVersion afterVersion start = (r, w')"
    and draft: "bump_draft env inputPath packageName beforeVersion afterVersion start = (r0, w0)"
  shows "aborted_before_branch (r, w') \<and> aborted_before_branch (r0, w0)
       \<and> recorded_version env packageName =
           (if pkg_dependencies pkg = Inr None then Inl TypeError
            else Inr (if packageName \<in> set object_prototype then Builtin else Undefined))
       \<and> (calls w' = calls_to_read env inputPath \<longrightarrow> (\<forall>t. r \<noteq> Inl (Thrown t)) \<longrightarrow>
            r = Inl (if pkg_dependencies pkg = Inr None then TypeError
                     else AssertionFailed
                            (MustEqual (if packageName \<in> set object_prototype then Builtin
                                        else Undefined) beforeVersion)))
       \<and> (calls w0 = drop 2 (calls_to_read env inputPath) \<longrightarrow> (\<forall>t. r0 \<noteq> Inl (Thrown t)) \<longrightarrow>
            r0 = Inl (if pkg_dependencies pkg = Inr None then TypeError
                      else AssertionFailed
                             (MustEqual (if packageName \<in> set object_prototype then Builtin
                                         else Undefined) beforeVersion)))"
proof -
  have recorded: "recorded_version env packageName =
           (if pkg_dependencies pkg = Inr None then Inl TypeError
            else Inr (if packageName \<in> set object_prototype then Builtin else Undefined))"
    using manifest absent
    by (auto simp: recorded_version_def json_parse_def builtin_or_undefined_def)
  then have mismatch: "recorded_version env packageName \<noteq> Inr (Val (JStr beforeVersion))"
    by (simp split: if_splits)
  from bump_mismatch [OF run mismatch] obtain e where
    e: "r = Inl e" "prefix (calls w') (calls_to_read env inputPath)"
    "calls w' = calls_to_read env inputPath \<longrightarrow>
       (\<exists>t. e = Thrown t)
       \<or> (case recorded_version env packageName of
             Inl e' \<Rightarrow> e = e'
           | Inr v \<Rightarrow>
               e = (if unprintable v then TypeError
                    else AssertionFailed (MustEqual v beforeVersion)))"
    by (elim exE conjE)
  from bump_draft_mismatch [OF draft mismatch] obtain e0 where
    e0: "r0 = Inl e0" "prefix (calls w0) (drop 2 (calls_to_read env inputPath))"
    "calls w0 = drop 2 (calls_to_read env inputPath) \<longrightarrow>
       (\<exists>t. e0 = Thrown t)
       \<or> (case recorded_version env packageName of
             Inl e' \<Rightarrow> e0 = e'
           | Inr v \<Rightarrow>
               e0 = (if unprintable v then TypeError
                     else AssertionFailed (MustEqual v beforeVersion)))"
    by (elim exE conjE)
  have a: "aborted_before_branch (r, w')"
    unfolding aborted_before_branch_def using e(1) calls_to_read_harmless [OF disjI1 [OF e(2)]]
    by simp
  have a0: "aborted_before_branch (r0, w0)"
    unfolding aborted_before_branch_def using e0(1) calls_to_read_harmless [OF disjI2 [OF e0(2)]]
    by simp
  have b: "r = Inl (if pkg_dependencies pkg = Inr None then TypeError
                     else AssertionFailed
                            (MustEqual (if packageName \<in> set object_prototype then Builtin
                                        else Undefined) beforeVersion))"
    if "calls w' = calls_to_read env inputPath" "\<forall>t. r \<noteq> Inl (Thrown t)"
    using that e(1,3) by (auto simp: recorded split: if_splits)
  have b0: "r0 = Inl (if pkg_dependencies pkg = Inr None then TypeError
                     else AssertionFailed
                            (MustEqual (if packageName \<in> set object_prototype then Builtin
                                        else Undefined) beforeVersion))"
    if "calls w0 = drop 2 (calls_to_read env inputPath)" "\<forall>t. r0 \<noteq> Inl (Thrown t)"
    using that e0(1,3) by (auto simp: recorded split: if_splits)
  from a a0 recorded b b0 show ?thesis by (intro conjI impI)
qed

theorem absent_dependency_aborts_before_branch_witness:
  "package_json no_deps_env = Some (JObj [(''name'', JStr ''app''), (''dependencies'', JObj [])])
   \<and> pkg_dependencies (JObj [(''name'', JStr ''app''), (''dependencies'', JObj [])]) =
       Inr (Some (JObj []))
   \<and> map_of ([] :: (string \<times> json) list) ''left-pad'' = None
   \<and> calls (snd (bump no_deps_env ''/repo'' ''left-pad'' ''1.0.0'' ''^1.2.0'' start)) =
       calls_to_read no_deps_env ''/repo''
   \<and> aborted_before_branch (bump no_deps_env ''/repo'' ''left-pad'' ''1.0.0'' ''^1.2.0'' start)
   \<and> recorded_version no_deps_env ''left-pad'' = Inr Undefined
   \<and> fst (bump no_deps_env ''/repo'' ''left-pad'' ''1.0.0'' ''^1.2.0'' start) =
       Inl (AssertionFailed (MustEqual Undefined ''1.0.0''))"
proof -
  let ?pkg = "JObj [(''name'', JStr ''app''), (''dependencies'', JObj [])]"
  let ?run = "bump no_deps_env ''/repo'' ''left-pad'' ''1.0.0'' ''^1.2.0'' start"
  let ?draft = "bump_draft no_deps_env ''/repo'' ''left-pad'' ''1.0.0'' ''^1.2.0'' start"
  have manifest: "package_json no_deps_env = Some ?pkg"
    by (simp add: no_deps_env_def example_env_def)
  have deps: "pkg_dependencies ?pkg = Inr (Some (JObj []))"
    by simp
  have none: "map_of ([] :: (string \<times> json) list) ''left-pad'' = None"
    by simp
  have absent: "pkg_dependencies ?pkg = Inr None
      \<or> (\<exists>ds. pkg_dependencies ?pkg = Inr (Some (JObj ds)) \<and> map_of ds ''left-pad'' = None)"
    by simp
  have reached: "calls (snd ?run) = calls_to_read no_deps_env ''/repo''"
    by (simp add: no_deps_run)
  have not_thrown: "\<forall>t. fst ?run \<noteq> Inl (Thrown t)"
    by (simp add: no_deps_run)
  have plain: "''left-pad'' \<notin> set object_prototype"
    by (simp add: object_prototype_def)
  note inst = absent_dependency_aborts_before_branch
    [OF manifest absent surjective_pairing [of ?run] surjective_pairing [of ?draft]]
  from inst have aborted: "aborted_before_branch ?run"
    by simp
  from inst have "recorded_version no_deps_env ''left-pad'' =
           (if pkg_dependencies ?pkg = Inr None then Inl TypeError
            else Inr (if ''left-pad'' \<in> set object_prototype then Builtin else Undefined))"
    by (elim conjE)
  then have recorded: "recorded_version no_deps_env ''left-pad'' = Inr Undefined"
    using plain by simp
  from inst have "calls (snd ?run) = calls_to_read no_deps_env ''/repo'' \<longrightarrow>
      (\<forall>t. fst ?run \<noteq> Inl (Thrown t)) \<longrightarrow>
      fst ?run = Inl (if pkg_dependencies ?pkg = Inr None then TypeError
                     else AssertionFailed
                            (MustEqual (if ''left-pad'' \<in> set object_prototype then Builtin
                                        else Undefined) ''1.0.0''))"
    by (elim conjE)
  with reached not_thrown plain
  have failed: "fst ?run = Inl (AssertionFailed (MustEqual Undefined ''1.0.0''))"
    by simp
  from manifest deps none reached aborted recorded failed show ?thesis
    by (intro conjI)
qed

text \<open>
  C10 as stated fails twice. A manifest that names the package under
  \<^verbatim>\<open>devDependencies\<close> only has no \<^verbatim>\<open>dependencies\<close>: the lookup throws a TypeError and
  the precondition compares nothing. And for the name \<^verbatim>\<open>constructor\<close>, absent from an
  empty \<^verbatim>\<open>dependencies\<close>, the precondition compares \<open>beforeVersion\<close> with the inherited
  function, not with \<^verbatim>\<open>undefined\<close>.
\<close>

theorem compares_with_undefined_counterexample:
  "pkg_dependencies (JObj [(''name'', JStr ''app''),
       (''devDependencies'', JObj [(''left-pad'', JStr ''1.0.0'')])]) = Inr None
   \<and> recorded_version dev_only_env ''left-pad'' = Inl TypeError
   \<and> fst (bump dev_only_env ''/repo'' ''left-pad'' ''1.0.0'' ''^1.2.0'' start) = Inl TypeError
   \<and> fst (bump dev_only_env ''/repo'' ''left-pad'' ''1.0.0'' ''^1.2.0'' start)
       \<noteq> Inl (AssertionFailed (MustEqual Undefined ''1.0.0''))
   \<and> map_of ([] :: (string \<times> json) list) ''constructor'' = None
   \<and> recorded_version no_deps_env ''constructor'' = Inr Builtin
   \<and> fst (bump no_deps_env ''/repo'' ''constructor'' ''1.0.0'' ''^1.2.0'' start)
       = Inl (AssertionFailed (MustEqual Builtin ''1.0.0''))
   \<and> fst (bump no_deps_env ''/repo'' ''constructor'' ''1.0.0'' ''^1.2.0'' start)
       \<noteq> Inl (AssertionFailed (MustEqual Undefined ''1.0.0''))"
proof -
  have dev: "recorded_version dev_only_env ''left-pad'' = Inl TypeError"
    by (simp add: recorded_version_def json_parse_def dev_only_env_def example_env_def)
  have inherited: "recorded_version no_deps_env ''constructor'' = Inr Builtin"
    by (simp add: recorded_version_def json_parse_def no_deps_env_def example_env_def
        builtin_or_undefined_def object_prototype_def)
  show ?thesis
    by (simp add: dev inherited dev_only_run inherited_name_run)
qed

section \<open>Successful runs\<close>

lemma bump_success_facts:
  assumes "bump env inputPath packageName beforeVersion afterVersion start = (Inr x, w')"
  shows "\<exists>pkg pkg' repoInfo dependencies.
           x = Undefined
         \<and> truthy (GITHUB_USERNAME env) \<and> truthy (GITHUB_PASSWORD env)
         \<and> statuses env = []
         \<and> repo_info_of (origin_url env) = Inr repoInfo
         \<and> package_json env = Some pkg
         \<and> pkg_dependencies pkg = Inr dependencies
         \<and> js_get (runtime env) dependencies packageName = Inr (Val (JStr beforeVersion))
         \<and> assign_dependency pkg packageName afterVersion = Inr pkg'
         \<and> calls w' =
             calls_to_read env inputPath
             @ calls_to_commit env inputPath packageName afterVersion pkg'
             @ calls_to_push inputPath packageName afterVersion
             @ calls_to_pull_request env repoInfo packageName afterVersion
         \<and> stdout w' =
             [''Pushed '' @ branchName packageName afterVersion @ '' to ''
                @ template ''undefined'' (owner repoInfo) @ ''/''
                @ template ''undefined'' (name repoInfo),
              pr_url env]"
  using assms
  apply (simp add: bump_def helper_defs run_simps start_def Let_def json_parse_def
      del: addByPaths.simps split: option.splits if_splits sum.splits)
  apply (auto simp: trace_defs)
  done

lemma bump_success:
  assumes "bump env inputPath packageName beforeVersion afterVersion start = (Inr x, w')"
  obtains (success) pkg pkg' repoInfo dependencies where
    "x = Undefined"
    "truthy (GITHUB_USERNAME env)" "truthy (GITHUB_PASSWORD env)"
    "statuses env = []"
    "repo_info_of (origin_url env) = Inr repoInfo"
    "package_json env = Some pkg"
    "pkg_dependencies pkg = Inr dependencies"
    "js_get (runtime env) dependencies packageName = Inr (Val (JStr beforeVersion))"
    "assign_dependency pkg packageName afterVersion = Inr pkg'"
    "calls w' =
       calls_to_read env inputPath
       @ calls_to_commit env inputPath packageName afterVersion pkg'
       @ calls_to_push inputPath packageName afterVersion
       @ calls_to_pull_request env repoInfo packageName afterVersion"
    "stdout w' =
       [''Pushed '' @ branchName packageName afterVersion @ '' to ''
          @ template ''undefined'' (owner repoInfo) @ ''/''
          @ template ''undefined'' (name repoInfo),
        pr_url env]"
  using bump_success_facts [OF assms] by (elim exE conjE) (rule that)

lemma example_run:
  "bump example_env ''/repo'' ''left-pad'' ''1.0.0'' ''^1.2.0'' start =
     (Inr Undefined,
      \<lparr>calls =
         calls_to_read example_env ''/repo''
         @ calls_to_commit example_env ''/repo'' ''left-pad'' ''^1.2.0'' example_bumped
         @ calls_to_push ''/repo'' ''left-pad'' ''^1.2.0''
         @ calls_to_pull_request example_env
             \<lparr>host = Some ''github.com'', owner = Some ''lerouxb'', name = Some ''pmg''\<rparr>
             ''left-pad'' ''^1.2.0'',
       stdout = [''Pushed bump-left-pad-v1.2.0 to lerouxb/pmg'',
                 ''https://api.github.com/repos/lerouxb/pmg/pulls/1'']\<rparr>)"
  by (simp add: bump_def helper_defs run_simps start_def Let_def json_parse_def
      example_env_def example_manifest_def example_bumped_def truthy_def repo_info_of_def
      assign_dependency_def nth_opt_def template_def trace_defs
      branchName_def commitMessage_def safeVersion_def safePackageName_def
      replace_class_global_def builtin_or_undefined_def
      del: addByPaths.simps)

lemma big_run:
  "bump big_env ''/repo'' ''left-pad'' ''1.0.0'' ''^1.2.0'' start =
     (Inr Undefined,
      \<lparr>calls =
         calls_to_read big_env ''/repo''
         @ calls_to_commit big_env ''/repo'' ''left-pad'' ''^1.2.0'' big_bumped
         @ calls_to_push ''/repo'' ''left-pad'' ''^1.2.0''
         @ calls_to_pull_request big_env
             \<lparr>host = Some ''github.com'', owner = Some ''lerouxb'', name = Some ''pmg''\<rparr>
             ''left-pad'' ''^1.2.0'',
       stdout = [''Pushed bump-left-pad-v1.2.0 to lerouxb/pmg'',
                 ''https://api.github.com/repos/lerouxb/pmg/pulls/1'']\<rparr>)"
  by (simp add: bump_def helper_defs run_simps start_def Let_def json_parse_def
      big_env_def big_manifest_def big_bumped_def example_env_def truthy_def repo_info_of_def
      assign_dependency_def nth_opt_def template_def trace_defs
      branchName_def commitMessage_def safeVersion_def safePackageName_def
      replace_class_global_def builtin_or_undefined_def
      del: addByPaths.simps)

text \<open>
  C1, as the code has it. A successful run has read a manifest whose entry for the
  package is exactly \<open>beforeVersion\<close>, and writes the manifest once, with 2-space
  indentation and a trailing newline. Read back from the file, the entry is
  \<open>afterVersion\<close>; every other entry of \<^verbatim>\<open>dependencies\<close> and every other field of the
  manifest is the value it was as \<^verbatim>\<open>JSON.stringify\<close> writes it: the same value,
  except that an infinity inside it has become \<^verbatim>\<open>null\<close> and a negative zero \<^verbatim>\<open>0\<close>.
  The fields keep their order. In memory, before the write, nothing but the entry has
  changed.
\<close>

theorem successful_run_rewrites_one_entry:
  assumes "bump env inputPath packageName beforeVersion afterVersion start = (Inr x, w')"
  shows "\<exists>pkg pkg' deps deps'.
           statuses env = []
         \<and> package_json env = Some pkg
         \<and> field_of pkg ''dependencies'' = Some deps
         \<and> js_get (runtime env) (Some deps) packageName = Inr (Val (JStr beforeVersion))
         \<and> filter writes_file (calls w') =
             [WriteFileSync (path_resolve env inputPath ''package.json'') pkg' 2 [CHR 0x0A]]
         \<and> field_of pkg' ''dependencies'' = Some deps'
         \<and> js_get (runtime env) (Some deps') packageName = Inr (Val (JStr afterVersion))
         \<and> (\<forall>other. other \<noteq> packageName \<longrightarrow>
               js_get (runtime env) (Some deps') other = js_get (runtime env) (Some deps) other)
         \<and> (\<forall>field. field \<noteq> ''dependencies'' \<longrightarrow> field_of pkg' field = field_of pkg field)
         \<and> keys_of pkg' = keys_of pkg
         \<and> field_of (written pkg') ''dependencies'' = Some (written deps')
         \<and> js_get (runtime env) (Some (written deps')) packageName =
             Inr (Val (JStr afterVersion))
         \<and> (\<forall>other. other \<noteq> packageName \<longrightarrow>
               js_get (runtime env) (Some (written deps')) other =
                 map_sum id written_val (js_get (runtime env) (Some deps) other))
         \<and> (\<forall>field. field \<noteq> ''dependencies'' \<longrightarrow>
               field_of (written pkg') field = map_option written (field_of pkg field))
         \<and> keys_of (written pkg') = keys_of pkg
         \<and> (\<forall>v. exact v \<longrightarrow> written v = v)"
  using assms
proof (cases rule: bump_success)
  case (success pkg pkg' repoInfo dependencies)
  have written: "filter writes_file (calls w') =
      [WriteFileSync (path_resolve env inputPath ''package.json'') pkg' 2 [CHR 0x0A]]"
    by (simp add: success(10) trace_defs)
  from success(7,8,9) show ?thesis
  proof (cases rule: assign_dependency_cases)
    case (assigned fs fs' deps deps')
    have before: "js_get (runtime env) (Some deps) packageName = Inr (Val (JStr beforeVersion))"
      using success(8) assigned(3) by simp
    have pkg: "field_of pkg ''dependencies'' = Some deps"
      using assigned(1,4) by simp
    have pkg': "field_of pkg' ''dependencies'' = Some deps'"
      using assigned(2,5) by simp
    have fields: "\<forall>field. field \<noteq> ''dependencies'' \<longrightarrow> field_of pkg' field = field_of pkg field"
      using assigned(1,2,7) by simp
    have keys: "keys_of pkg' = keys_of pkg"
      using assigned(1,2,6) by simp
    have doc_deps: "field_of (written pkg') ''dependencies'' = Some (written deps')"
      using pkg' assigned(2) by (simp add: map_of_map)
    have doc_entry: "js_get (runtime env) (Some (written deps')) packageName =
        Inr (Val (JStr afterVersion))"
      using js_get_written [OF assigned(8), of packageName] assigned(8) by simp
    have doc_others: "\<forall>other. other \<noteq> packageName \<longrightarrow>
        js_get (runtime env) (Some (written deps')) other =
          map_sum id written_val (js_get (runtime env) (Some deps) other)"
      using js_get_written [OF assigned(8)] assigned(9) by simp
    have doc_fields: "\<forall>field. field \<noteq> ''dependencies'' \<longrightarrow>
        field_of (written pkg') field = map_option written (field_of pkg field)"
      using fields assigned(1,2) by (simp add: map_of_map)
    have doc_keys: "keys_of (written pkg') = keys_of pkg"
      using keys assigned(2) by (simp add: case_prod_beta comp_def)
    have same: "\<forall>v. exact v \<longrightarrow> written v = v"
      by (simp add: written_exact)
    show ?thesis
      apply (rule exI [of _ pkg], rule exI [of _ pkg'], rule exI [of _ deps], rule exI [of _ deps'])
      apply (intro conjI)
                     apply (rule success(4))
                    apply (rule success(6))
                   apply (rule pkg)
                  apply (rule before)
                 apply (rule written)
                apply (rule pkg')
               apply (rule assigned(8))
              apply (rule assigned(9))
             apply (rule fields)
            apply (rule keys)
           apply (rule doc_deps)
          apply (rule doc_entry)
         apply (rule doc_others)
        apply (rule doc_fields)
       apply (rule doc_keys)
      apply (rule same)
      done
  qed
qed

theorem successful_run_rewrites_one_entry_witness:
  "bump example_env ''/repo'' ''left-pad'' ''1.0.0'' ''^1.2.0'' start =
     (Inr Undefined, snd (bump example_env ''/repo'' ''left-pad'' ''1.0.0'' ''^1.2.0'' start))
   \<and> exact (JObj [(''lab'', JStr ''^15.0.0'')])
   \<and> (\<exists>pkg' deps'.
         filter writes_file
           (calls (snd (bump example_env ''/repo'' ''left-pad'' ''1.0.0'' ''^1.2.0'' start))) =
           [WriteFileSync ''/repo/package.json'' pkg' 2 [CHR 0x0A]]
       \<and> field_of (written pkg') ''dependencies'' = Some (written deps')
       \<and> js_get (runtime example_env) (Some (written deps')) ''left-pad'' =
           Inr (Val (JStr ''^1.2.0''))
       \<and> js_get (runtime example_env) (Some (written deps')) ''hoek'' =
           Inr (Val (JStr ''^5.0.0''))
       \<and> field_of (written pkg') ''name'' = Some (JStr ''app'')
       \<and> field_of (written pkg') ''devDependencies'' = Some (JObj [(''lab'', JStr ''^15.0.0'')])
       \<and> keys_of (written pkg') = [''name'', ''dependencies'', ''devDependencies''])"
proof -
  let ?run = "bump example_env ''/repo'' ''left-pad'' ''1.0.0'' ''^1.2.0'' start"
  let ?rt = "runtime example_env"
  have run: "?run = (Inr Undefined, snd ?run)"
    by (simp add: example_run)
  have lab: "exact (JObj [(''lab'', JStr ''^15.0.0'')])"
    by simp
  from successful_run_rewrites_one_entry [OF run] obtain pkg pkg' deps deps' where
    pkg: "package_json example_env = Some pkg"
    and deps: "field_of pkg ''dependencies'' = Some deps"
    and written: "filter writes_file (calls (snd ?run)) =
        [WriteFileSync (path_resolve example_env ''/repo'' ''package.json'') pkg' 2 [CHR 0x0A]]"
    and deps': "field_of (written pkg') ''dependencies'' = Some (written deps')"
    and entry: "js_get ?rt (Some (written deps')) ''left-pad'' = Inr (Val (JStr ''^1.2.0''))"
    and others: "\<forall>other. other \<noteq> ''left-pad'' \<longrightarrow>
        js_get ?rt (Some (written deps')) other =
          map_sum id written_val (js_get ?rt (Some deps) other)"
    and fields: "\<forall>field. field \<noteq> ''dependencies'' \<longrightarrow>
        field_of (written pkg') field = map_option written (field_of pkg field)"
    and order: "keys_of (written pkg') = keys_of pkg"
    and same: "\<forall>v. exact v \<longrightarrow> written v = v"
    by (elim exE conjE)
  from pkg have pkg_eq: "pkg = JObj [(''name'', JStr ''app''),
      (''dependencies'', JObj [(''left-pad'', JStr ''1.0.0''), (''hoek'', JStr ''^5.0.0'')]),
      (''devDependencies'', JObj [(''lab'', JStr ''^15.0.0'')])]"
    by (simp add: example_env_def example_manifest_def)
  from deps have deps_eq: "deps = JObj [(''left-pad'', JStr ''1.0.0''), (''hoek'', JStr ''^5.0.0'')]"
    by (simp add: pkg_eq)
  have hoek: "js_get ?rt (Some (written deps')) ''hoek'' = Inr (Val (JStr ''^5.0.0''))"
    using others [rule_format, of "''hoek''"] by (simp add: deps_eq)
  have name: "field_of (written pkg') ''name'' = Some (JStr ''app'')"
    using fields [rule_format, of "''name''"] by (simp add: pkg_eq)
  have "field_of (written pkg') ''devDependencies'' =
      Some (written (JObj [(''lab'', JStr ''^15.0.0'')]))"
    using fields [rule_format, of "''devDependencies''"] by (simp add: pkg_eq)
  with same [rule_format, OF lab]
  have dev: "field_of (written pkg') ''devDependencies'' = Some (JObj [(''lab'', JStr ''^15.0.0'')])"
    by simp
  have path: "path_resolve example_env ''/repo'' ''package.json'' = ''/repo/package.json''"
    by (simp add: example_env_def)
  have order': "keys_of (written pkg') = [''name'', ''dependencies'', ''devDependencies'']"
    using order by (simp add: pkg_eq)
  have written': "filter writes_file (calls (snd ?run)) =
      [WriteFileSync ''/repo/package.json'' pkg' 2 [CHR 0x0A]]"
    using written by (simp only: path)
  show ?thesis
    apply (rule conjI [OF run])
    apply (rule conjI [OF lab])
    apply (rule exI [of _ pkg'], rule exI [of _ deps'])
    apply (intro conjI)
          apply (rule written')
         apply (rule deps')
        apply (rule entry)
       apply (rule hoek)
      apply (rule name)
     apply (rule dev)
    apply (rule order')
    done
qed

text \<open>
  C1 as stated fails on a manifest with a numeral beyond the range of doubles. The
  field \<^verbatim>\<open>"timeout": 1e400\<close> is read as \<^verbatim>\<open>Infinity\<close>; the run succeeds and writes it as
  \<^verbatim>\<open>null\<close>, so a field other than the entry of the package has changed its value.
\<close>

theorem other_fields_unchanged_counterexample:
  "fst (bump big_env ''/repo'' ''left-pad'' ''1.0.0'' ''^1.2.0'' start) = Inr Undefined
   \<and> package_json big_env = Some big_manifest
   \<and> field_of big_manifest ''timeout'' = Some (JNum PositiveInfinity)
   \<and> filter writes_file
        (calls (snd (bump big_env ''/repo'' ''left-pad'' ''1.0.0'' ''^1.2.0'' start))) =
       [WriteFileSync ''/repo/package.json'' big_bumped 2 [CHR 0x0A]]
   \<and> field_of (written big_bumped) ''timeout'' = Some JNull"
proof -
  have "package_json big_env = Some big_manifest"
    by (simp add: big_env_def)
  moreover have "path_resolve big_env ''/repo'' ''package.json'' = ''/repo/package.json''"
    by (simp add: big_env_def example_env_def)
  moreover have "field_of big_manifest ''timeout'' = Some (JNum PositiveInfinity)"
    by (simp add: big_manifest_def)
  moreover have "field_of (written big_bumped) ''timeout'' = Some JNull"
    by (simp add: big_bumped_def)
  ultimately show ?thesis
    by (simp add: big_run trace_defs)
qed

text \<open>
  C7: a successful run asks for exactly one pull request: its head is the branch name
  derived from the package and the version, its base is \<^verbatim>\<open>master\<close>, and its title is
  \<^verbatim>\<open>[Technical] \<close> followed by the commit message. Owner and repository are the
  first two parts of the path of the remote's URL.
\<close>

theorem pull_request_head_base_title:
  assumes "bump env inputPath packageName beforeVersion afterVersion start = (Inr x, w')"
  shows "\<exists>repoInfo.
           repo_info_of (origin_url env) = Inr repoInfo
         \<and> filter creates_pull_request (calls w') =
             [PullRequestsCreate (owner repoInfo) (name repoInfo)
                (branchName packageName afterVersion) ''master''
                (''[Technical] '' @ commitMessage packageName afterVersion)]"
  using assms
proof (cases rule: bump_success)
  case (success pkg pkg' repoInfo dependencies)
  have "filter creates_pull_request (calls w') =
      [PullRequestsCreate (owner repoInfo) (name repoInfo)
         (branchName packageName afterVersion) ''master''
         (''[Technical] '' @ commitMessage packageName afterVersion)]"
    by (simp add: success(10) trace_defs)
  with success(5) show ?thesis
    by (intro exI [of _ repoInfo] conjI)
qed

theorem pull_request_head_base_title_witness:
  "bump example_env ''/repo'' ''left-pad'' ''1.0.0'' ''^1.2.0'' start =
     (Inr Undefined, snd (bump example_env ''/repo'' ''left-pad'' ''1.0.0'' ''^1.2.0'' start))
   \<and> filter creates_pull_request
        (calls (snd (bump example_env ''/repo'' ''left-pad'' ''1.0.0'' ''^1.2.0'' start))) =
       [PullRequestsCreate (Some ''lerouxb'') (Some ''pmg'') ''bump-left-pad-v1.2.0'' ''master''
          ''[Technical] Bump left-pad to v1.2.0'']"
proof -
  let ?run = "bump example_env ''/repo'' ''left-pad'' ''1.0.0'' ''^1.2.0'' start"
  have run: "?run = (Inr Undefined, snd ?run)"
    by (simp add: example_run)
  from pull_request_head_base_title [OF run] obtain repoInfo where
    info: "repo_info_of (origin_url example_env) = Inr repoInfo"
    and pr: "filter creates_pull_request (calls (snd ?run)) =
        [PullRequestsCreate (owner repoInfo) (name repoInfo)
           (branchName ''left-pad'' ''^1.2.0'') ''master''
           (''[Technical] '' @ commitMessage ''left-pad'' ''^1.2.0'')]"
    by (elim exE conjE)
  from info have "repoInfo = \<lparr>host = Some ''github.com'', owner = Some ''lerouxb'', name = Some ''pmg''\<rparr>"
    by (simp add: example_env_def repo_info_of_def nth_opt_def)
  with pr have "filter creates_pull_request (calls (snd ?run)) =
       [PullRequestsCreate (Some ''lerouxb'') (Some ''pmg'') ''bump-left-pad-v1.2.0'' ''master''
          ''[Technical] Bump left-pad to v1.2.0'']"
    by (simp add: branchName_def commitMessage_def safeVersion_def safePackageName_def
        replace_class_global_def)
  with run show ?thesis by (rule conjI)
qed

text \<open>
  C9, as the code has it: a successful run prints two lines, first
  \<^verbatim>\<open>Pushed <branch> to <owner>/<repository>\<close> and then the URL that the hosting
  service answered for the pull request it created, and the promise of \<^verbatim>\<open>bump\<close>
  resolves with \<^verbatim>\<open>undefined\<close>.
\<close>

theorem pull_request_url_is_printed:
  assumes "bump env inputPath packageName beforeVersion afterVersion start = (Inr x, w')"
  shows "\<exists>repoInfo.
           x = Undefined
         \<and> repo_info_of (origin_url env) = Inr repoInfo
         \<and> stdout w' =
             [''Pushed '' @ branchName packageName afterVersion @ '' to ''
                @ template ''undefined'' (owner repoInfo) @ ''/''
                @ template ''undefined'' (name repoInfo),
              pr_url env]
         \<and> (\<exists>c \<in> set (calls w'). creates_pull_request c)"
  using assms
proof (cases rule: bump_success)
  case (success pkg pkg' repoInfo dependencies)
  have "\<exists>c \<in> set (calls w'). creates_pull_request c"
    by (simp add: success(10) calls_to_pull_request_def)
  with success(1,5,11) show ?thesis
    by (intro exI [of _ repoInfo] conjI)
qed

theorem pull_request_url_is_printed_witness:
  "bump example_env ''/repo'' ''left-pad'' ''1.0.0'' ''^1.2.0'' start =
     (Inr Undefined, snd (bump example_env ''/repo'' ''left-pad'' ''1.0.0'' ''^1.2.0'' start))
   \<and> stdout (snd (bump example_env ''/repo'' ''left-pad'' ''1.0.0'' ''^1.2.0'' start)) =
       [''Pushed bump-left-pad-v1.2.0 to lerouxb/pmg'',
        ''https://api.github.com/repos/lerouxb/pmg/pulls/1'']"
proof -
  let ?run = "bump example_env ''/repo'' ''left-pad'' ''1.0.0'' ''^1.2.0'' start"
  have run: "?run = (Inr Undefined, snd ?run)"
    by (simp add: example_run)
  from pull_request_url_is_printed [OF run] obtain repoInfo where
    info: "repo_info_of (origin_url example_env) = Inr repoInfo"
    and out: "stdout (snd ?run) =
             [''Pushed '' @ branchName ''left-pad'' ''^1.2.0'' @ '' to ''
                @ template ''undefined'' (owner repoInfo) @ ''/''
                @ template ''undefined'' (name repoInfo),
              pr_url example_env]"
    by (elim exE conjE)
  from info have "repoInfo = \<lparr>host = Some ''github.com'', owner = Some ''lerouxb'', name = Some ''pmg''\<rparr>"
    by (simp add: example_env_def repo_info_of_def nth_opt_def)
  with out have "stdout (snd ?run) =
       [''Pushed bump-left-pad-v1.2.0 to lerouxb/pmg'',
        ''https://api.github.com/repos/lerouxb/pmg/pulls/1'']"
    by (simp add: branchName_def safeVersion_def safePackageName_def replace_class_global_def
        template_def example_env_def)
  with run show ?thesis by (rule conjI)
qed

text \<open>
  C9 as stated fails: in the scenario of the specification the run succeeds and what
  \<^verbatim>\<open>bump\<close> returns is \<^verbatim>\<open>undefined\<close>, not the URL of the pull request.
\<close>

theorem run_returns_url_counterexample:
  "fst (bump example_env ''/repo'' ''left-pad'' ''1.0.0'' ''^1.2.0'' start) = Inr Undefined
   \<and> fst (bump example_env ''/repo'' ''left-pad'' ''1.0.0'' ''^1.2.0'' start)
       \<noteq> Inr (Val (JStr (pr_url example_env)))"
  by (simp add: example_run)

section \<open>A rejected push\<close>





end
